theory Spec2Isabelle
  imports Main "HOL-Library.Word"
begin

unbundle bit_operations_syntax

section \<open>Common types (include/common\_types.h, include/nvm.h)\<close>

type_synonym u8 = "8 word"
type_synonym u16 = "16 word"
type_synonym u32 = "32 word"
type_synonym u64 = "64 word"

datatype Std_ReturnType = E_OK | E_NOT_OK | E_PENDING

text \<open>
  \<open>NvM_RequestResultType\<close> is stored in a \<open>uint8_t\<close> array; the enumerators are kept as
  the bytes the code stores.
\<close>

definition NVM_REQ_OK :: u8 where "NVM_REQ_OK = 0"
definition NVM_REQ_NOT_OK :: u8 where "NVM_REQ_NOT_OK = 1"
definition NVM_REQ_PENDING :: u8 where "NVM_REQ_PENDING = 2"
definition NVM_REQ_INTEGRITY_FAILED :: u8 where "NVM_REQ_INTEGRITY_FAILED = 3"

datatype NvM_BlockType_t = NVM_BLOCK_NATIVE | NVM_BLOCK_REDUNDANT | NVM_BLOCK_DATASET

datatype NvM_CrcType_t = NVM_CRC_NONE | NVM_CRC8 | NVM_CRC16 | NVM_CRC32

datatype NvM_BlockStateType_t =
    NVM_BLOCKSTATE_UNINITIALIZED
  | NVM_BLOCKSTATE_VALID
  | NVM_BLOCKSTATE_INVALID
  | NVM_BLOCKSTATE_RECOVERING
  | NVM_BLOCKSTATE_RECOVERED

datatype NvM_JobType_t = NVM_JOB_READ | NVM_JOB_WRITE | NVM_JOB_READ_ALL | NVM_JOB_WRITE_ALL

text \<open>
  C copies a run of bytes into the front of a buffer: \<open>memcpy(dst, src, n)\<close>. The buffers
  are byte lists; the caller owns at least \<open>n\<close> bytes on both sides (anything else is
  undefined behaviour in C and outside the theorems below).
\<close>

definition memcpy :: "u8 list \<Rightarrow> u8 list \<Rightarrow> nat \<Rightarrow> u8 list" where
  "memcpy dst src n = take n src @ drop n dst"

section \<open>Versioned seqlock RAM mirror (src/nvm/ram\_mirror\_seqlock.c)\<close>

definition RAM_MIRROR_MAX_BLOCK_SIZE :: nat where
  "RAM_MIRROR_MAX_BLOCK_SIZE = 1024"

text \<open>
  \<open>RamMirrorVersioned_t\<close>: the union \<open>meta\<close> is kept as its 64-bit \<open>combined\<close> word; the
  writer itself takes \<open>sequence\<close> from the low and \<open>version\<close> from the high 32 bits.
\<close>

record RamMirrorVersioned_t =
  meta_combined :: u64
  mirror_data :: "u8 list"
  mirror_checksum :: u32

record SeqlockStats_t =
  read_count :: u32
  read_retries :: u32
  write_count :: u32
  stat_max_retries :: u32
  data_tears :: u32

text \<open>
  The file-level arrays \<open>g_versioned_mirrors[NVM_MAX_BLOCKS]\<close> and
  \<open>g_seqlock_stats[NVM_MAX_BLOCKS]\<close>. The header that defines \<open>NVM_MAX_BLOCKS\<close> for this file
  (nvm\_internal.h) is not part of the sources, so the bound is the length of the arrays.
\<close>

record seqlock_globals =
  g_versioned_mirrors :: "RamMirrorVersioned_t list"
  g_seqlock_stats :: "SeqlockStats_t list"

definition meta_sequence :: "u64 \<Rightarrow> u32" where
  "meta_sequence m = ucast (m AND 0xFFFFFFFF)"

definition meta_version :: "u64 \<Rightarrow> u32" where
  "meta_version m = ucast (drop_bit 32 m AND 0xFFFFFFFF)"

definition pack_meta :: "u32 \<Rightarrow> u32 \<Rightarrow> u64" where
  "pack_meta ver seq = push_bit 32 (ucast ver) OR ucast seq"

definition calculate_checksum :: "u8 list \<Rightarrow> u16 \<Rightarrow> u32" where
  "calculate_checksum bytes sz = foldl (\<lambda>acc b. acc + ucast b) 0 (take (unat sz) bytes)"

text \<open>
  One call of the writer, run to completion. \<open>data = None\<close> is the NULL pointer. The two
  release stores of the meta word are the two updates of \<open>meta_combined\<close>.
\<close>

definition RamMirror_SeqlockWriteVersioned ::
  "seqlock_globals \<Rightarrow> u8 \<Rightarrow> u8 list option \<Rightarrow> u16 \<Rightarrow> Std_ReturnType \<times> seqlock_globals" where
  "RamMirror_SeqlockWriteVersioned g block_id data sz =
    (case data of
       None \<Rightarrow> (E_NOT_OK, g)
     | Some bytes \<Rightarrow>
        if unat block_id \<ge> length (g_versioned_mirrors g) \<or> unat sz > RAM_MIRROR_MAX_BLOCK_SIZE
        then (E_NOT_OK, g)
        else
          let mirror = g_versioned_mirrors g ! unat block_id;
              stats = g_seqlock_stats g ! unat block_id;
              old_meta = meta_combined mirror;
              old_seq = meta_sequence old_meta;
              old_ver = meta_version old_meta;
              m1 = mirror\<lparr>meta_combined := pack_meta (old_ver + 1) (old_seq + 1)\<rparr>;
              m2 = m1\<lparr>mirror_data := memcpy (mirror_data m1) bytes (unat sz),
                       mirror_checksum := calculate_checksum bytes sz\<rparr>;
              m3 = m2\<lparr>meta_combined := pack_meta (old_ver + 1) (old_seq + 2)\<rparr>;
              stats' = stats\<lparr>write_count := write_count stats + 1\<rparr>
          in (E_OK, g\<lparr>g_versioned_mirrors := (g_versioned_mirrors g)[unat block_id := m3],
                       g_seqlock_stats := (g_seqlock_stats g)[unat block_id := stats']\<rparr>))"

text \<open>The version a reader finds for a block: \<open>mirror->meta.version\<close>.\<close>

definition version_of :: "seqlock_globals \<Rightarrow> u8 \<Rightarrow> u32" where
  "version_of g block_id = meta_version (meta_combined (g_versioned_mirrors g ! unat block_id))"

definition sequence_of :: "seqlock_globals \<Rightarrow> u8 \<Rightarrow> u32" where
  "sequence_of g block_id = meta_sequence (meta_combined (g_versioned_mirrors g ! unat block_id))"

section \<open>Fault injection (src/eeprom/fault\_injection.c)\<close>

datatype FaultId_t =
    FAULT_NONE
  | FAULT_P0_POWERLOSS_PAGEPROGRAM
  | FAULT_P0_POWERLOSS_WRITEALL
  | FAULT_P0_BITFLIP_SINGLE
  | FAULT_P0_BITFLIP_MULTI
  | FAULT_P0_TIMEOUT_50MS
  | FAULT_P0_TIMEOUT_ERASE
  | FAULT_P0_CRC_INVERT
  | FAULT_P0_WRITE_VERIFY_FAIL
  | FAULT_P0_RAM_CORRUPT
  | FAULT_P0_QUEUE_OVERFLOW
  | FAULT_MAX_ID

text \<open>The C \<open>boolean\<close> flags are read for truth only, so they are \<open>bool\<close>.\<close>

record FaultConfig_t =
  fault_id :: FaultId_t
  enabled :: bool
  target_block_id :: u8
  trigger_count :: u16
  triggered_count :: u16
  probability_percent :: u8

record FaultStats_t =
  total_triggered :: u32
  total_injected :: u32
  injection_failures :: u32

section \<open>EEPROM driver state (src/eeprom/eeprom\_driver.c)\<close>

text \<open>
  \<open>Eeprom_ConfigType\<close>; the driver's field \<open>block_size\<close> is \<open>erase_block_size\<close> here,
  apart from the NvM block's \<open>block_size\<close>. \<open>virtual_storage\<close> is the allocated array, a
  byte list of \<open>capacity_bytes\<close> bytes. The three delay fields only feed
  \<open>simulate_delay_us/ms\<close>, which do nothing, and are left out.
\<close>

record Eeprom_ConfigType =
  capacity_bytes :: u32
  page_size :: u32
  erase_block_size :: u32
  endurance_cycles :: u32
  virtual_storage :: "u8 list"

record Eeprom_DiagInfoType =
  total_read_count :: u32
  total_write_count :: u32
  total_erase_count :: u32
  max_erase_count :: u32
  crc_error_count :: u32
  total_bytes_read :: u32
  total_bytes_written :: u32

text \<open>
  The file-level variables of eeprom\_driver.c and fault\_injection.c: the medium and the
  hooks that sit on it.
\<close>

record medium =
  g_config :: Eeprom_ConfigType
  g_erase_counts :: "u32 list"
  g_diagnostics :: Eeprom_DiagInfoType
  g_initialized :: bool
  g_fault_configs :: "FaultConfig_t list"
  g_stats :: FaultStats_t
  g_rand_state :: u32

definition random_percent :: "u32 \<Rightarrow> u16 \<times> u32" where
  "random_percent r =
     (let r' = r * 1103515245 + 12345 in (ucast ((r' div 65536) mod 1000), r'))"

fun find_config_loop :: "FaultConfig_t list \<Rightarrow> FaultId_t \<Rightarrow> nat \<Rightarrow> nat option" where
  "find_config_loop [] fid i = None"
| "find_config_loop (c # cs) fid i =
     (if fault_id c = fid \<and> fault_id c \<noteq> FAULT_NONE then Some i
      else find_config_loop cs fid (Suc i))"

text \<open>\<open>find_config\<close> returns the index of the entry instead of a pointer to it.\<close>

definition find_config :: "medium \<Rightarrow> FaultId_t \<Rightarrow> nat option" where
  "find_config s fid = find_config_loop (g_fault_configs s) fid 0"

definition should_trigger :: "FaultConfig_t \<Rightarrow> u32 \<Rightarrow> bool \<times> u32" where
  "should_trigger config r =
     (if \<not> enabled config then (False, r)
      else if trigger_count config > 0 \<and> triggered_count config \<ge> trigger_count config
        then (False, r)
      else if probability_percent config = 0 then (True, r)
      else let (roll, r') = random_percent r
           in (unat roll < unat (probability_percent config) * 10, r'))"

text \<open>
  The shared shape of the hooks' test \<open>config != NULL && should_trigger(config)\<close>: the
  index of the entry when the fault fires, and the state with the generator advanced.
\<close>

definition fault_fires :: "medium \<Rightarrow> FaultId_t \<Rightarrow> nat option \<times> medium" where
  "fault_fires s fid =
     (case find_config s fid of
        None \<Rightarrow> (None, s)
      | Some i \<Rightarrow>
          let (t, r') = should_trigger (g_fault_configs s ! i) (g_rand_state s);
              s' = s\<lparr>g_rand_state := r'\<rparr>
          in (if t then Some i else None, s'))"

text \<open>\<open>config->triggered_count++; g_stats.total_injected++;\<close>\<close>

definition count_injection :: "medium \<Rightarrow> nat \<Rightarrow> medium" where
  "count_injection s i =
     (let c = g_fault_configs s ! i
      in s\<lparr>g_fault_configs := (g_fault_configs s)[i := c\<lparr>triggered_count := triggered_count c + 1\<rparr>],
            g_stats := (g_stats s)\<lparr>total_injected := total_injected (g_stats s) + 1\<rparr>\<rparr>)"

definition FaultInj_HookBeforeRead :: "medium \<Rightarrow> u32 \<Rightarrow> u32 \<Rightarrow> bool \<times> medium" where
  "FaultInj_HookBeforeRead s address len = (False, s)"

definition FaultInj_HookAfterRead :: "medium \<Rightarrow> u8 list \<Rightarrow> u32 \<Rightarrow> bool \<times> u8 list \<times> medium" where
  "FaultInj_HookAfterRead s buf len =
     (if len = 0 then (False, buf, s)
      else case fault_fires s FAULT_P0_BITFLIP_SINGLE of
        (Some i, s1) \<Rightarrow> (True, buf[0 := (buf ! 0) XOR 0x01], count_injection s1 i)
      | (None, s1) \<Rightarrow>
         (case fault_fires s1 FAULT_P0_BITFLIP_MULTI of
            (Some j, s2) \<Rightarrow>
              let flip_count = (if len > 4 then 4 else unat len)
              in (True, map (\<lambda>b. b XOR 0xFF) (take flip_count buf) @ drop flip_count buf,
                  count_injection s2 j)
          | (None, s2) \<Rightarrow> (False, buf, s2)))"

definition FaultInj_HookBeforeWrite :: "medium \<Rightarrow> u32 \<Rightarrow> u32 \<Rightarrow> bool \<times> medium" where
  "FaultInj_HookBeforeWrite s address len =
     (case fault_fires s FAULT_P0_TIMEOUT_ERASE of
        (Some i, s1) \<Rightarrow> (True, count_injection s1 i)
      | (None, s1) \<Rightarrow> (False, s1))"

definition FaultInj_HookAfterWrite :: "medium \<Rightarrow> u32 \<Rightarrow> bool \<times> medium" where
  "FaultInj_HookAfterWrite s address =
     (case fault_fires s FAULT_P0_POWERLOSS_PAGEPROGRAM of
        (Some i, s1) \<Rightarrow> (True, count_injection s1 i)
      | (None, s1) \<Rightarrow> (False, s1))"

section \<open>EEPROM driver operations (src/eeprom/eeprom\_driver.c)\<close>

text \<open>
  The sums and comparisons are those of \<open>uint32_t\<close>. Where the C divides by
  \<open>page_size\<close> or \<open>block_size\<close>, a zero divisor is undefined in C; the theorems below
  assume a well-formed geometry (\<open>medium_ok\<close>), which excludes it.
\<close>

definition validate_address :: "medium \<Rightarrow> u32 \<Rightarrow> u32 \<Rightarrow> bool" where
  "validate_address s address len =
     (if \<not> g_initialized s then False
      else if address \<ge> capacity_bytes (g_config s) then False
      else if address + len > capacity_bytes (g_config s) then False
      else True)"

definition address_to_block :: "medium \<Rightarrow> u32 \<Rightarrow> u32" where
  "address_to_block s address = address div erase_block_size (g_config s)"

definition Eep_IsPageAligned :: "medium \<Rightarrow> u32 \<Rightarrow> bool" where
  "Eep_IsPageAligned s address =
     (if \<not> g_initialized s then False else address mod page_size (g_config s) = 0)"

definition Eep_IsBlockAligned :: "medium \<Rightarrow> u32 \<Rightarrow> bool" where
  "Eep_IsBlockAligned s address =
     (if \<not> g_initialized s then False else address mod erase_block_size (g_config s) = 0)"

text \<open>Writing a run of bytes into the storage array at an address.\<close>

definition store_bytes :: "u8 list \<Rightarrow> nat \<Rightarrow> u8 list \<Rightarrow> u8 list" where
  "store_bytes st a bytes = take a st @ bytes @ drop (a + length bytes) st"

definition set_storage :: "medium \<Rightarrow> u8 list \<Rightarrow> medium" where
  "set_storage s st = s\<lparr>g_config := (g_config s)\<lparr>virtual_storage := st\<rparr>\<rparr>"

text \<open>
  \<open>Eep_Read\<close>: the caller's buffer goes in and comes back with its first \<open>length\<close> bytes
  overwritten. The buffer is a value, so the NULL test has no counterpart.
\<close>

definition Eep_Read :: "medium \<Rightarrow> u32 \<Rightarrow> u8 list \<Rightarrow> u32 \<Rightarrow> Std_ReturnType \<times> u8 list \<times> medium" where
  "Eep_Read s address data_buffer len =
     (if \<not> validate_address s address len then (E_NOT_OK, data_buffer, s)
      else case FaultInj_HookBeforeRead s address len of
        (True, s1) \<Rightarrow> (E_NOT_OK, data_buffer, s1)
      | (False, s1) \<Rightarrow>
          let buf1 = memcpy data_buffer (drop (unat address) (virtual_storage (g_config s1))) (unat len);
              (_, buf2, s2) = FaultInj_HookAfterRead s1 buf1 len;
              d = g_diagnostics s2;
              s3 = s2\<lparr>g_diagnostics := d\<lparr>total_read_count := total_read_count d + 1,
                                            total_bytes_read := total_bytes_read d + len\<rparr>\<rparr>
          in (E_OK, buf2, s3))"

definition Eep_Write :: "medium \<Rightarrow> u32 \<Rightarrow> u8 list \<Rightarrow> u32 \<Rightarrow> Std_ReturnType \<times> medium" where
  "Eep_Write s address data_buffer len =
     (if \<not> validate_address s address len then (E_NOT_OK, s)
      else case FaultInj_HookBeforeWrite s address len of
        (True, s1) \<Rightarrow> (E_NOT_OK, s1)
      | (False, s1) \<Rightarrow>
         (if \<not> Eep_IsPageAligned s1 address then (E_NOT_OK, s1)
          else if len mod page_size (g_config s1) \<noteq> 0 then (E_NOT_OK, s1)
          else if \<exists>b \<in> set (take (unat len) (drop (unat address) (virtual_storage (g_config s1)))). b \<noteq> 0xFF
            then (E_NOT_OK, s1)
          else
            let s2 = set_storage s1
                       (store_bytes (virtual_storage (g_config s1)) (unat address)
                          (take (unat len) data_buffer));
                d = g_diagnostics s2;
                s3 = s2\<lparr>g_diagnostics := d\<lparr>total_write_count := total_write_count d + 1,
                                              total_bytes_written := total_bytes_written d + len\<rparr>\<rparr>
            in (case FaultInj_HookAfterWrite s3 address of
                  (True, s4) \<Rightarrow> (E_NOT_OK, s4)
                | (False, s4) \<Rightarrow> (E_OK, s4))))"

definition Eep_Erase :: "medium \<Rightarrow> u32 \<Rightarrow> Std_ReturnType \<times> medium" where
  "Eep_Erase s address =
     (if \<not> validate_address s address (erase_block_size (g_config s)) then (E_NOT_OK, s)
      else if \<not> Eep_IsBlockAligned s address then (E_NOT_OK, s)
      else
        let block_idx = unat (address_to_block s address)
        in if g_erase_counts s ! block_idx \<ge> endurance_cycles (g_config s) then (E_NOT_OK, s)
           else
             let s1 = set_storage s
                        (store_bytes (virtual_storage (g_config s)) (unat address)
                           (replicate (unat (erase_block_size (g_config s))) 0xFF));
                 n = g_erase_counts s1 ! block_idx + 1;
                 d = g_diagnostics s1;
                 d1 = d\<lparr>total_erase_count := total_erase_count d + 1\<rparr>;
                 d2 = (if n > max_erase_count d1 then d1\<lparr>max_erase_count := n\<rparr> else d1)
             in (E_OK, s1\<lparr>g_erase_counts := (g_erase_counts s1)[block_idx := n],
                           g_diagnostics := d2\<rparr>))"

text \<open>The built-in geometry \<open>default_config\<close> and \<open>Eep_Init(NULL)\<close>, with the allocations
  succeeding.\<close>

definition default_config :: Eeprom_ConfigType where
  "default_config =
     \<lparr>capacity_bytes = 4096, page_size = 256, erase_block_size = 1024,
      endurance_cycles = 100000, virtual_storage = []\<rparr>"

definition zero_diagnostics :: Eeprom_DiagInfoType where
  "zero_diagnostics =
     \<lparr>total_read_count = 0, total_write_count = 0, total_erase_count = 0, max_erase_count = 0,
      crc_error_count = 0, total_bytes_read = 0, total_bytes_written = 0\<rparr>"

definition Eep_Init_default :: "medium \<Rightarrow> Std_ReturnType \<times> medium" where
  "Eep_Init_default s =
     (let c = default_config\<lparr>virtual_storage := replicate (unat (capacity_bytes default_config)) 0xFF\<rparr>;
          num_blocks = unat (capacity_bytes c div erase_block_size c)
      in (E_OK, s\<lparr>g_config := c,
                   g_erase_counts := replicate num_blocks 0,
                   g_diagnostics := zero_diagnostics,
                   g_initialized := True\<rparr>))"

section \<open>Memory interface (src/memif/memif.c)\<close>

definition MemIf_Read :: "medium \<Rightarrow> u32 \<Rightarrow> u8 list \<Rightarrow> u32 \<Rightarrow> Std_ReturnType \<times> u8 list \<times> medium" where
  "MemIf_Read s address data_buffer len =
     (case Eep_Read s address data_buffer len of
        (E_OK, buf, s') \<Rightarrow> (E_OK, buf, s')
      | (_, buf, s') \<Rightarrow> (E_NOT_OK, buf, s'))"

definition MemIf_Write :: "medium \<Rightarrow> u32 \<Rightarrow> u8 list \<Rightarrow> u32 \<Rightarrow> Std_ReturnType \<times> medium" where
  "MemIf_Write s address data_buffer len =
     (case Eep_Write s address data_buffer len of
        (E_OK, s') \<Rightarrow> (E_OK, s')
      | (_, s') \<Rightarrow> (E_NOT_OK, s'))"

definition MemIf_Erase :: "medium \<Rightarrow> u32 \<Rightarrow> u32 \<Rightarrow> Std_ReturnType \<times> medium" where
  "MemIf_Erase s address len =
     (if \<not> Eep_IsBlockAligned s address then (E_NOT_OK, s)
      else case Eep_Erase s address of
        (E_OK, s') \<Rightarrow> (E_OK, s')
      | (_, s') \<Rightarrow> (E_NOT_OK, s'))"

definition MemIf_Init :: "medium \<Rightarrow> Std_ReturnType \<times> medium" where
  "MemIf_Init s =
     (case Eep_Init_default s of
        (E_OK, s') \<Rightarrow> (E_OK, s')
      | (_, s') \<Rightarrow> (E_NOT_OK, s'))"

section \<open>CRC-16 (include/crc16.h)\<close>

text \<open>
  Modelled from the spec: crc16.c is not among the sources. The header and the
  specification fix the function: CRC-16-CCITT, polynomial \<open>0x1021\<close>, initial value
  \<open>0xFFFF\<close>, no reflection, no final XOR, with an incremental form that resumes from a
  given accumulator. No theorem below depends on anything but its being a function of the
  first \<open>length\<close> bytes.
\<close>

definition crc16_shift :: "u16 \<Rightarrow> u16" where
  "crc16_shift c = (if c AND 0x8000 \<noteq> 0 then push_bit 1 c XOR 0x1021 else push_bit 1 c)"

definition crc16_byte :: "u16 \<Rightarrow> u8 \<Rightarrow> u16" where
  "crc16_byte c b =
     crc16_shift (crc16_shift (crc16_shift (crc16_shift
       (crc16_shift (crc16_shift (crc16_shift (crc16_shift (c XOR push_bit 8 (ucast b)))))))))"

definition Crc16_CalculateExtended :: "u8 list \<Rightarrow> u32 \<Rightarrow> u16 \<Rightarrow> u16" where
  "Crc16_CalculateExtended bytes len init_crc = foldl crc16_byte init_crc (take (unat len) bytes)"

definition Crc16_Calculate :: "u8 list \<Rightarrow> u32 \<Rightarrow> u16" where
  "Crc16_Calculate bytes len = Crc16_CalculateExtended bytes len 0xFFFF"

section \<open>Block configuration (include/nvm.h)\<close>

text \<open>
  \<open>NvM_BlockConfig_t\<close>. \<open>ram_mirror_ptr\<close> is an address in the RAM store of the manager
  (0 is NULL); \<open>rom_block_ptr\<close> points to constant data and is that data (\<open>None\<close> is NULL).
\<close>

record NvM_BlockConfig_t =
  block_id :: u8
  block_size :: u16
  block_type :: NvM_BlockType_t
  crc_type :: NvM_CrcType_t
  priority :: u8
  is_immediate :: bool
  is_write_protected :: bool
  ram_mirror_ptr :: nat
  rom_block_ptr :: "u8 list option"
  rom_block_size :: u32
  eeprom_offset :: u32
  redundant_eeprom_offset :: u32
  version_control_offset :: u32
  active_version :: u8
  dataset_count :: u8
  active_dataset_index :: u8
  state :: NvM_BlockStateType_t
  erase_count :: u32

section \<open>CRC-protected slot read and write (src/nvm/nvm\_block\_types.c)\<close>

definition EEPROM_BLOCK_SLOT_SIZE :: nat where
  "EEPROM_BLOCK_SLOT_SIZE = 1024"

text \<open>
  The \<open>uint16_t\<close> CRC goes to and from the medium through \<open>memcpy\<close> on its object
  representation: two bytes, low byte first.
\<close>

definition u16_bytes :: "u16 \<Rightarrow> u8 list" where
  "u16_bytes w = [ucast w, ucast (drop_bit 8 w)]"

definition bytes_u16 :: "u8 list \<Rightarrow> u16" where
  "bytes_u16 bs = ucast (bs ! 0) OR push_bit 8 (ucast (bs ! 1))"

definition NvM_TryReadBlock ::
  "medium \<Rightarrow> u32 \<Rightarrow> u8 list \<Rightarrow> u16 \<Rightarrow> NvM_CrcType_t \<Rightarrow> bool \<times> u8 list \<times> medium" where
  "NvM_TryReadBlock s offset data sz crc_ty =
     (case MemIf_Read s offset data (ucast sz) of
        (E_OK, data1, s1) \<Rightarrow>
          (if crc_ty \<noteq> NVM_CRC_NONE then
             (let crc_offset = offset + ucast sz
              in case MemIf_Read s1 crc_offset (u16_bytes 0) 2 of
                   (E_OK, crc_buf, s2) \<Rightarrow>
                     (let stored_crc = bytes_u16 crc_buf;
                          calculated_crc = Crc16_Calculate data1 (ucast sz)
                      in if stored_crc \<noteq> calculated_crc then (False, data1, s2)
                         else (True, data1, s2))
                 | (_, crc_buf, s2) \<Rightarrow> (False, data1, s2))
           else (True, data1, s1))
      | (_, data1, s1) \<Rightarrow> (False, data1, s1))"

definition NvM_WriteBlockWithCrc ::
  "medium \<Rightarrow> u32 \<Rightarrow> u8 list \<Rightarrow> u16 \<Rightarrow> NvM_CrcType_t \<Rightarrow> Std_ReturnType \<times> medium" where
  "NvM_WriteBlockWithCrc s offset data sz crc_ty =
     (let crc = (if crc_ty \<noteq> NVM_CRC_NONE then Crc16_Calculate data (ucast sz) else 0);
          crc_size = (if crc_ty \<noteq> NVM_CRC_NONE then 2 else 0 :: nat)
      in case MemIf_Erase s offset (ucast sz) of
           (E_OK, s1) \<Rightarrow>
             (case MemIf_Write s1 offset data (ucast sz) of
                (E_OK, s2) \<Rightarrow>
                  (if crc_ty \<noteq> NVM_CRC_NONE then
                     (let crc_offset = offset + ucast sz
                      in if crc_offset mod 256 = 0 then
                           (let page_buffer = memcpy (replicate 256 0xFF) (u16_bytes crc) crc_size
                            in case MemIf_Write s2 crc_offset page_buffer 256 of
                                 (E_OK, s3) \<Rightarrow> (E_OK, s3)
                               | (_, s3) \<Rightarrow> (E_NOT_OK, s3))
                         else (E_NOT_OK, s2))
                   else (E_OK, s2))
              | (_, s2) \<Rightarrow> (E_NOT_OK, s2))
         | (_, s1) \<Rightarrow> (E_NOT_OK, s1))"

section \<open>Block-type engine (src/nvm/nvm\_block\_types.c)\<close>

text \<open>
  Each handler takes the medium, the block and the caller's buffer, and returns the
  status with the block and the medium as the call leaves them (reads also return the
  buffer). The ROM fallback is shared by the three readers.
\<close>

definition rom_fallback :: "NvM_BlockConfig_t \<Rightarrow> u8 list \<Rightarrow> u8 list" where
  "rom_fallback block data =
     (case rom_block_ptr block of
        Some rom \<Rightarrow>
          if rom_block_size block > 0 then
            memcpy data rom
              (if rom_block_size block < ucast (block_size block)
               then unat (rom_block_size block) else unat (block_size block))
          else data
      | None \<Rightarrow> data)"

definition NvM_ReadNativeBlock ::
  "medium \<Rightarrow> NvM_BlockConfig_t \<Rightarrow> u8 list \<Rightarrow> Std_ReturnType \<times> NvM_BlockConfig_t \<times> u8 list \<times> medium" where
  "NvM_ReadNativeBlock s block data =
     (case NvM_TryReadBlock s (eeprom_offset block) data (block_size block) (crc_type block) of
        (True, data1, s1) \<Rightarrow> (E_OK, block\<lparr>state := NVM_BLOCKSTATE_VALID\<rparr>, data1, s1)
      | (False, data1, s1) \<Rightarrow>
          (E_NOT_OK, block\<lparr>state := NVM_BLOCKSTATE_INVALID\<rparr>, rom_fallback block data1, s1))"

definition NvM_WriteNativeBlock ::
  "medium \<Rightarrow> NvM_BlockConfig_t \<Rightarrow> u8 list \<Rightarrow> Std_ReturnType \<times> NvM_BlockConfig_t \<times> medium" where
  "NvM_WriteNativeBlock s block data =
     (case NvM_WriteBlockWithCrc s (eeprom_offset block) data (block_size block) (crc_type block) of
        (E_OK, s1) \<Rightarrow>
          (E_OK, block\<lparr>erase_count := erase_count block + 1, state := NVM_BLOCKSTATE_VALID\<rparr>, s1)
      | (ret, s1) \<Rightarrow> (ret, block, s1))"

definition NvM_ReadRedundantBlock ::
  "medium \<Rightarrow> NvM_BlockConfig_t \<Rightarrow> u8 list \<Rightarrow> Std_ReturnType \<times> NvM_BlockConfig_t \<times> u8 list \<times> medium" where
  "NvM_ReadRedundantBlock s block data =
     (case NvM_TryReadBlock s (eeprom_offset block) data (block_size block) (crc_type block) of
        (True, data1, s1) \<Rightarrow> (E_OK, block\<lparr>state := NVM_BLOCKSTATE_VALID\<rparr>, data1, s1)
      | (False, data1, s1) \<Rightarrow>
          (case NvM_TryReadBlock s1 (redundant_eeprom_offset block) data1 (block_size block)
                  (crc_type block) of
             (True, data2, s2) \<Rightarrow> (E_OK, block\<lparr>state := NVM_BLOCKSTATE_RECOVERED\<rparr>, data2, s2)
           | (False, data2, s2) \<Rightarrow>
               (E_NOT_OK, block\<lparr>state := NVM_BLOCKSTATE_INVALID\<rparr>, rom_fallback block data2, s2)))"

text \<open>
  \<open>NvM_WriteRedundantBlock\<close> in its steps. The first two (write the primary copy, read
  it back when it fits the 256-byte \<open>verify_buffer\<close>) end the call with \<open>E_NOT_OK\<close> when
  one fails; the flag says whether both passed. The third writes the backup copy; the C
  only logs its status and goes on. Then the version byte and the counters.
\<close>

definition redundant_primary_phase :: "medium \<Rightarrow> NvM_BlockConfig_t \<Rightarrow> u8 list \<Rightarrow> bool \<times> medium" where
  "redundant_primary_phase s block data =
     (case NvM_WriteBlockWithCrc s (eeprom_offset block) data (block_size block) (crc_type block) of
        (E_OK, s1) \<Rightarrow>
          (if block_size block \<le> 256 then
             (case NvM_TryReadBlock s1 (eeprom_offset block) (replicate 256 0)
                     (block_size block) (crc_type block) of
                (ok, verify_buffer, s2) \<Rightarrow> (ok, s2))
           else (True, s1))
      | (ret, s1) \<Rightarrow> (False, s1))"

definition redundant_backup_phase ::
  "medium \<Rightarrow> NvM_BlockConfig_t \<Rightarrow> u8 list \<Rightarrow> Std_ReturnType \<times> medium" where
  "redundant_backup_phase s block data =
     NvM_WriteBlockWithCrc s (redundant_eeprom_offset block) data (block_size block) (crc_type block)"

definition NvM_WriteRedundantBlock ::
  "medium \<Rightarrow> NvM_BlockConfig_t \<Rightarrow> u8 list \<Rightarrow> Std_ReturnType \<times> NvM_BlockConfig_t \<times> medium" where
  "NvM_WriteRedundantBlock s block data =
     (case redundant_primary_phase s block data of
        (False, s2) \<Rightarrow> (E_NOT_OK, block, s2)
      | (True, s2) \<Rightarrow>
          (let (ret, s3) = redundant_backup_phase s2 block data;
               block1 = block\<lparr>active_version := active_version block + 1\<rparr>;
               s4 = (if version_control_offset block1 > 0
                     then snd (MemIf_Write s3 (version_control_offset block1)
                                 [active_version block1] 1)
                     else s3)
           in (E_OK, block1\<lparr>erase_count := erase_count block1 + 1,
                             state := NVM_BLOCKSTATE_VALID\<rparr>, s4)))"

text \<open>The backup copy was written by the call: the status that the C logs is \<open>E_OK\<close>.\<close>

definition backup_written :: "medium \<Rightarrow> NvM_BlockConfig_t \<Rightarrow> u8 list \<Rightarrow> bool" where
  "backup_written s block data =
     (fst (redundant_backup_phase (snd (redundant_primary_phase s block data)) block data) = E_OK)"

text \<open>
  The dataset handlers. \<open>(active_dataset_index + i) % dataset_count\<close> is computed in
  \<open>int\<close>, so the sum does not wrap at 256; \<open>dataset_count = 0\<close> divides by zero, which is
  undefined in C and is excluded by the theorems (and by
  \<open>EEPROM_ValidateBlockConfig\<close>).
\<close>

definition dataset_slot_offset :: "NvM_BlockConfig_t \<Rightarrow> nat \<Rightarrow> u32" where
  "dataset_slot_offset block dataset_index =
     eeprom_offset block + of_nat (dataset_index * EEPROM_BLOCK_SLOT_SIZE)"

fun NvM_ReadDatasetBlock_scan ::
  "medium \<Rightarrow> NvM_BlockConfig_t \<Rightarrow> u8 list \<Rightarrow> nat list \<Rightarrow> nat option \<times> u8 list \<times> medium" where
  "NvM_ReadDatasetBlock_scan s block data [] = (None, data, s)"
| "NvM_ReadDatasetBlock_scan s block data (i # rest) =
     (let dataset_index = (unat (active_dataset_index block) + i) mod unat (dataset_count block);
          offset = dataset_slot_offset block dataset_index
      in case NvM_TryReadBlock s offset data (block_size block) (crc_type block) of
           (True, data1, s1) \<Rightarrow> (Some i, data1, s1)
         | (False, data1, s1) \<Rightarrow> NvM_ReadDatasetBlock_scan s1 block data1 rest)"

definition NvM_ReadDatasetBlock ::
  "medium \<Rightarrow> NvM_BlockConfig_t \<Rightarrow> u8 list \<Rightarrow> Std_ReturnType \<times> NvM_BlockConfig_t \<times> u8 list \<times> medium" where
  "NvM_ReadDatasetBlock s block data =
     (case NvM_ReadDatasetBlock_scan s block data [0 ..< unat (dataset_count block)] of
        (Some i, data1, s1) \<Rightarrow>
          (if i = 0 then (E_OK, block\<lparr>state := NVM_BLOCKSTATE_VALID\<rparr>, data1, s1)
           else
             (let dataset_index = (unat (active_dataset_index block) + i) mod unat (dataset_count block)
              in (E_OK, block\<lparr>state := NVM_BLOCKSTATE_RECOVERED,
                               active_dataset_index := of_nat dataset_index\<rparr>, data1, s1)))
      | (None, data1, s1) \<Rightarrow>
          (E_NOT_OK, block\<lparr>state := NVM_BLOCKSTATE_INVALID\<rparr>, rom_fallback block data1, s1))"

text \<open>The slot the next dataset write goes to: the locals \<open>next_index\<close> and \<open>offset\<close>.\<close>

definition next_index :: "NvM_BlockConfig_t \<Rightarrow> nat" where
  "next_index block = (unat (active_dataset_index block) + 1) mod unat (dataset_count block)"

definition NvM_WriteDatasetBlock ::
  "medium \<Rightarrow> NvM_BlockConfig_t \<Rightarrow> u8 list \<Rightarrow> Std_ReturnType \<times> NvM_BlockConfig_t \<times> medium" where
  "NvM_WriteDatasetBlock s block data =
     (let offset = dataset_slot_offset block (next_index block)
      in case NvM_WriteBlockWithCrc s offset data (block_size block) (crc_type block) of
           (E_OK, s1) \<Rightarrow>
             (E_OK, block\<lparr>active_dataset_index := of_nat (next_index block),
                           erase_count := erase_count block + 1,
                           state := NVM_BLOCKSTATE_VALID\<rparr>, s1)
         | (ret, s1) \<Rightarrow> (E_NOT_OK, block, s1))"

section \<open>Layout calculator (src/utils/eeprom\_layout.c)\<close>

record Eeprom_BlockLayout_t =
  data_offset :: u32
  data_size :: u32
  crc_offset :: u32
  crc_size :: u32
  reserved_start :: u32
  reserved_size :: u32
  slot_size :: u32

definition layout_crc_size :: "NvM_CrcType_t \<Rightarrow> u32" where
  "layout_crc_size t =
     (case t of NVM_CRC_NONE \<Rightarrow> 0 | NVM_CRC8 \<Rightarrow> 1 | NVM_CRC16 \<Rightarrow> 2 | NVM_CRC32 \<Rightarrow> 4)"

text \<open>\<open>EEPROM_CalcBlockLayout\<close> fills the caller's structure (both pointers non-NULL).\<close>

definition EEPROM_CalcBlockLayout :: "NvM_BlockConfig_t \<Rightarrow> Eeprom_BlockLayout_t \<Rightarrow> int \<times> Eeprom_BlockLayout_t" where
  "EEPROM_CalcBlockLayout cfg layout =
     (let l1 = layout\<lparr>data_offset := eeprom_offset cfg,
                      data_size := ucast (block_size cfg),
                      crc_offset := eeprom_offset cfg + ucast (block_size cfg)\<rparr>;
          l2 = l1\<lparr>crc_size := layout_crc_size (crc_type cfg)\<rparr>;
          l3 = l2\<lparr>reserved_start := crc_offset l2 + crc_size l2\<rparr>;
          l4 = l3\<lparr>reserved_size := of_nat EEPROM_BLOCK_SLOT_SIZE - reserved_size l3\<rparr>
      in (0, l4\<lparr>slot_size := of_nat EEPROM_BLOCK_SLOT_SIZE\<rparr>))"

definition EEPROM_IS_SLOT_ALIGNED :: "u32 \<Rightarrow> bool" where
  "EEPROM_IS_SLOT_ALIGNED offset = (offset mod of_nat EEPROM_BLOCK_SLOT_SIZE = 0)"

definition EEPROM_ValidateBlockConfig :: "NvM_BlockConfig_t \<Rightarrow> bool" where
  "EEPROM_ValidateBlockConfig cfg =
     (if \<not> EEPROM_IS_SLOT_ALIGNED (eeprom_offset cfg) then False
      else
        let crc_off = eeprom_offset cfg + ucast (block_size cfg);
            crc_sz = (2 :: u32)
        in if crc_off + crc_sz > eeprom_offset cfg + of_nat EEPROM_BLOCK_SLOT_SIZE then False
           else if block_type cfg = NVM_BLOCK_NATIVE then True
           else if block_type cfg = NVM_BLOCK_REDUNDANT then
             (if \<not> EEPROM_IS_SLOT_ALIGNED (redundant_eeprom_offset cfg) then False
              else
                let primary_end = eeprom_offset cfg + of_nat EEPROM_BLOCK_SLOT_SIZE
                in if redundant_eeprom_offset cfg < primary_end then False else True)
           else if block_type cfg = NVM_BLOCK_DATASET then
             (if dataset_count cfg = 0 \<or> dataset_count cfg > 4 then False
              else
                let total_space = (of_nat (unat (dataset_count cfg) * EEPROM_BLOCK_SLOT_SIZE) :: u32)
                in if total_space > 4096 then False else True)
           else True)"

section \<open>Job queue (src/nvm/nvm\_jobqueue.c)\<close>

text \<open>
  \<open>NvM_Job_t\<close>; the fields shared by name with the block configuration carry the prefix
  \<open>job_\<close>. \<open>data_ptr\<close> is an address in the RAM store of the manager.
\<close>

record NvM_Job_t =
  job_type :: NvM_JobType_t
  job_block_id :: u8
  job_priority :: u8
  job_is_immediate :: bool
  data_ptr :: nat
  submit_time_ms :: u32
  timeout_ms :: u32
  retry_count :: u8
  max_retries :: u8

definition NVM_JOB_QUEUE_SIZE :: nat where
  "NVM_JOB_QUEUE_SIZE = 32"

text \<open>
  \<open>NvM_JobQueue_t\<close>, the ring buffer \<open>g_job_queue\<close>. Its \<open>uint16_t\<close> indices and counters
  never exceed \<open>NVM_JOB_QUEUE_SIZE\<close> and are natural numbers; every reduction modulo the
  queue size is written as in the C.
\<close>

record NvM_JobQueue_t =
  jobs :: "NvM_Job_t list"
  head :: nat
  tail :: nat
  count :: nat
  max_count :: nat
  overflow_count :: u32

definition zero_job :: NvM_Job_t where
  "zero_job =
     \<lparr>job_type = NVM_JOB_READ, job_block_id = 0, job_priority = 0, job_is_immediate = False,
      data_ptr = 0, submit_time_ms = 0, timeout_ms = 0, retry_count = 0, max_retries = 0\<rparr>"

definition NvM_JobQueue_Init :: NvM_JobQueue_t where
  "NvM_JobQueue_Init =
     \<lparr>jobs = replicate NVM_JOB_QUEUE_SIZE zero_job, head = 0, tail = 0, count = 0,
      max_count = 0, overflow_count = 0\<rparr>"

definition calculate_effective_priority :: "NvM_Job_t \<Rightarrow> u8" where
  "calculate_effective_priority job =
     (if job_type job = NVM_JOB_READ_ALL then 0
      else if job_type job = NVM_JOB_WRITE_ALL then 1
      else if job_is_immediate job \<and> job_priority job > 2 then job_priority job - 2
      else job_priority job)"

fun find_insert_scan :: "NvM_JobQueue_t \<Rightarrow> u8 \<Rightarrow> nat list \<Rightarrow> nat option" where
  "find_insert_scan q new_priority [] = None"
| "find_insert_scan q new_priority (i # rest) =
     (let idx = (head q + i) mod NVM_JOB_QUEUE_SIZE;
          existing_priority = calculate_effective_priority (jobs q ! idx)
      in if new_priority < existing_priority then Some idx
         else find_insert_scan q new_priority rest)"

definition find_insert_position :: "NvM_JobQueue_t \<Rightarrow> NvM_Job_t \<Rightarrow> nat" where
  "find_insert_position q job =
     (case find_insert_scan q (calculate_effective_priority job) [0 ..< count q] of
        Some idx \<Rightarrow> idx
      | None \<Rightarrow> tail q)"

definition NvM_JobQueue_IsEmpty :: "NvM_JobQueue_t \<Rightarrow> bool" where
  "NvM_JobQueue_IsEmpty q = (count q = 0)"

definition NvM_JobQueue_IsFull :: "NvM_JobQueue_t \<Rightarrow> bool" where
  "NvM_JobQueue_IsFull q = (count q \<ge> NVM_JOB_QUEUE_SIZE)"

definition NvM_JobQueue_GetDepth :: "NvM_JobQueue_t \<Rightarrow> nat" where
  "NvM_JobQueue_GetDepth q = count q"

definition NvM_JobQueue_GetMaxDepth :: "NvM_JobQueue_t \<Rightarrow> nat" where
  "NvM_JobQueue_GetMaxDepth q = max_count q"

text \<open>The loop \<open>for (i = shift_count; i > 0; i--)\<close> of \<open>NvM_JobQueue_Enqueue\<close>.\<close>

fun shift_up :: "NvM_Job_t list \<Rightarrow> nat \<Rightarrow> nat \<Rightarrow> NvM_Job_t list" where
  "shift_up js insert_pos 0 = js"
| "shift_up js insert_pos (Suc i) =
     (let src_idx = (insert_pos + Suc i - 1) mod NVM_JOB_QUEUE_SIZE;
          dst_idx = (insert_pos + Suc i) mod NVM_JOB_QUEUE_SIZE
      in shift_up (js[dst_idx := js ! src_idx]) insert_pos i)"

definition NvM_JobQueue_Enqueue :: "NvM_JobQueue_t \<Rightarrow> NvM_Job_t \<Rightarrow> Std_ReturnType \<times> NvM_JobQueue_t" where
  "NvM_JobQueue_Enqueue q job =
     (if NvM_JobQueue_IsFull q then (E_NOT_OK, q\<lparr>overflow_count := overflow_count q + 1\<rparr>)
      else
        let insert_pos = find_insert_position q job;
            js1 = (if count q > 0 then
                     shift_up (jobs q) insert_pos
                       ((tail q + NVM_JOB_QUEUE_SIZE - insert_pos) mod NVM_JOB_QUEUE_SIZE)
                   else jobs q);
            q1 = q\<lparr>jobs := js1[insert_pos := job],
                   tail := (tail q + 1) mod NVM_JOB_QUEUE_SIZE,
                   count := count q + 1\<rparr>;
            q2 = (if count q1 > max_count q1 then q1\<lparr>max_count := count q1\<rparr> else q1)
        in (E_OK, q2))"

text \<open>\<open>NvM_JobQueue_Dequeue\<close>: \<open>None\<close> is \<open>E_NOT_OK\<close>; otherwise \<open>E_OK\<close> with the job copied out.\<close>

definition NvM_JobQueue_Dequeue :: "NvM_JobQueue_t \<Rightarrow> (NvM_Job_t \<times> NvM_JobQueue_t) option" where
  "NvM_JobQueue_Dequeue q =
     (if NvM_JobQueue_IsEmpty q then None
      else Some (jobs q ! head q,
                 q\<lparr>head := (head q + 1) mod NVM_JOB_QUEUE_SIZE, count := count q - 1\<rparr>))"

text \<open>The inner loop \<open>for (j = i; j < count - 1; j++)\<close> of \<open>NvM_JobQueue_CheckTimeouts\<close>.\<close>

fun shift_down :: "NvM_Job_t list \<Rightarrow> nat \<Rightarrow> nat list \<Rightarrow> NvM_Job_t list" where
  "shift_down js h [] = js"
| "shift_down js h (j # rest) =
     (let src = (h + j + 1) mod NVM_JOB_QUEUE_SIZE;
          dst = (h + j) mod NVM_JOB_QUEUE_SIZE
      in shift_down (js[dst := js ! src]) h rest)"

text \<open>
  The outer loop of \<open>NvM_JobQueue_CheckTimeouts\<close>. After a removal the C runs \<open>i--\<close> and
  then the loop's \<open>i++\<close> (at \<open>i = 0\<close> through the wrap of \<open>uint16_t\<close>), so the same
  position is looked at again.
\<close>

function check_timeouts_loop :: "NvM_JobQueue_t \<Rightarrow> u32 \<Rightarrow> nat \<Rightarrow> u8 \<Rightarrow> u8 \<times> NvM_JobQueue_t" where
  "check_timeouts_loop q current_time_ms i timeout_count =
     (if i < count q then
        (let idx = (head q + i) mod NVM_JOB_QUEUE_SIZE;
             job = jobs q ! idx
         in if timeout_ms job = 0 then check_timeouts_loop q current_time_ms (i + 1) timeout_count
            else
              let elapsed = current_time_ms - submit_time_ms job
              in if elapsed > timeout_ms job then
                   (let job1 = job\<lparr>retry_count := retry_count job + 1\<rparr>;
                        q1 = q\<lparr>jobs := (jobs q)[idx := job1]\<rparr>
                    in if retry_count job1 > max_retries job1 then
                         (let q2 = q1\<lparr>jobs := shift_down (jobs q1) (head q1) [i ..< count q1 - 1],
                                       tail := (tail q1 + NVM_JOB_QUEUE_SIZE - 1) mod NVM_JOB_QUEUE_SIZE,
                                       count := count q1 - 1\<rparr>
                          in check_timeouts_loop q2 current_time_ms i (timeout_count + 1))
                       else check_timeouts_loop q1 current_time_ms (i + 1) timeout_count)
                 else check_timeouts_loop q current_time_ms (i + 1) timeout_count)
      else (timeout_count, q))"
  by pat_completeness auto
termination
  by (relation "measure (\<lambda>(q, t, i, c). count q - i)") auto

definition NvM_JobQueue_CheckTimeouts :: "NvM_JobQueue_t \<Rightarrow> u32 \<Rightarrow> u8 \<times> NvM_JobQueue_t" where
  "NvM_JobQueue_CheckTimeouts q current_time_ms = check_timeouts_loop q current_time_ms 0 0"

section \<open>NvM manager (src/nvm/nvm.c)\<close>

definition NVM_MAX_BLOCKS :: nat where
  "NVM_MAX_BLOCKS = 16"

record NvM_Diagnostics_t =
  total_jobs_processed :: u32
  total_jobs_failed :: u32
  total_jobs_retried :: u32
  current_queue_depth :: u32
  max_queue_depth :: u32

text \<open>
  The file-level state of nvm.c (\<open>g_nvm\<close> and \<open>g_job_results\<close>) together with what the
  manager reaches through pointers and the layers below: the medium (\<open>hw\<close>) and the RAM
  buffers of the application (\<open>ram\<close>, from an address to the bytes there). The job queue is
  the state of its own file and is passed beside it. \<open>block_count\<close> is bounded by
  \<open>NVM_MAX_BLOCKS\<close> and is a natural number.
\<close>

record nvm_globals =
  blocks :: "NvM_BlockConfig_t list"
  block_count :: nat
  diagnostics :: NvM_Diagnostics_t
  initialized :: bool
  g_job_results :: "u8 list"
  hw :: medium
  ram :: "nat \<Rightarrow> u8 list"

fun find_block_scan :: "NvM_BlockConfig_t list \<Rightarrow> u8 \<Rightarrow> nat list \<Rightarrow> nat option" where
  "find_block_scan bs bid [] = None"
| "find_block_scan bs bid (i # rest) =
     (if block_id (bs ! i) = bid then Some i else find_block_scan bs bid rest)"

text \<open>\<open>find_block\<close> returns the index into \<open>g_nvm.blocks\<close> instead of the pointer.\<close>

definition find_block :: "nvm_globals \<Rightarrow> u8 \<Rightarrow> nat option" where
  "find_block g bid = find_block_scan (blocks g) bid [0 ..< block_count g]"

definition process_read_block :: "nvm_globals \<Rightarrow> NvM_Job_t \<Rightarrow> Std_ReturnType \<times> nvm_globals" where
  "process_read_block g job =
     (case find_block g (job_block_id job) of
        None \<Rightarrow> (E_NOT_OK, g)
      | Some i \<Rightarrow>
          let block = blocks g ! i;
              (ret, block1, data1, hw1) =
                (case block_type block of
                   NVM_BLOCK_NATIVE \<Rightarrow> NvM_ReadNativeBlock (hw g) block (ram g (data_ptr job))
                 | NVM_BLOCK_REDUNDANT \<Rightarrow> NvM_ReadRedundantBlock (hw g) block (ram g (data_ptr job))
                 | NVM_BLOCK_DATASET \<Rightarrow> NvM_ReadDatasetBlock (hw g) block (ram g (data_ptr job)))
          in (ret, g\<lparr>blocks := (blocks g)[i := block1], hw := hw1,
                      ram := (ram g)(data_ptr job := data1)\<rparr>))"

definition process_write_block :: "nvm_globals \<Rightarrow> NvM_Job_t \<Rightarrow> Std_ReturnType \<times> nvm_globals" where
  "process_write_block g job =
     (case find_block g (job_block_id job) of
        None \<Rightarrow> (E_NOT_OK, g)
      | Some i \<Rightarrow>
          let block = blocks g ! i
          in if is_write_protected block then (E_NOT_OK, g)
             else
               let (ret, block1, hw1) =
                     (case block_type block of
                        NVM_BLOCK_NATIVE \<Rightarrow> NvM_WriteNativeBlock (hw g) block (ram g (data_ptr job))
                      | NVM_BLOCK_REDUNDANT \<Rightarrow> NvM_WriteRedundantBlock (hw g) block (ram g (data_ptr job))
                      | NVM_BLOCK_DATASET \<Rightarrow> NvM_WriteDatasetBlock (hw g) block (ram g (data_ptr job)))
               in (ret, g\<lparr>blocks := (blocks g)[i := block1], hw := hw1\<rparr>))"

fun process_read_all_loop :: "nvm_globals \<Rightarrow> Std_ReturnType \<Rightarrow> nat list \<Rightarrow> Std_ReturnType \<times> nvm_globals" where
  "process_read_all_loop g ret [] = (ret, g)"
| "process_read_all_loop g ret (i # rest) =
     (let block = blocks g ! i;
          job = zero_job\<lparr>job_type := NVM_JOB_READ, job_block_id := block_id block,
                         data_ptr := ram_mirror_ptr block, job_priority := 0\<rparr>;
          (r, g1) = process_read_block g job
      in process_read_all_loop g1 (if r \<noteq> E_OK then E_NOT_OK else ret) rest)"

definition process_read_all :: "nvm_globals \<Rightarrow> Std_ReturnType \<times> nvm_globals" where
  "process_read_all g = process_read_all_loop g E_OK [0 ..< block_count g]"

fun process_write_all_loop :: "nvm_globals \<Rightarrow> Std_ReturnType \<Rightarrow> nat list \<Rightarrow> Std_ReturnType \<times> nvm_globals" where
  "process_write_all_loop g ret [] = (ret, g)"
| "process_write_all_loop g ret (i # rest) =
     (let block = blocks g ! i
      in if is_write_protected block then process_write_all_loop g ret rest
         else
           let job = zero_job\<lparr>job_type := NVM_JOB_WRITE, job_block_id := block_id block,
                              data_ptr := ram_mirror_ptr block, job_priority := 0\<rparr>;
               (r, g1) = process_write_block g job
           in process_write_all_loop g1 (if r \<noteq> E_OK then E_NOT_OK else ret) rest)"

definition process_write_all :: "nvm_globals \<Rightarrow> Std_ReturnType \<times> nvm_globals" where
  "process_write_all g = process_write_all_loop g E_OK [0 ..< block_count g]"

definition zero_nvm_diagnostics :: NvM_Diagnostics_t where
  "zero_nvm_diagnostics =
     \<lparr>total_jobs_processed = 0, total_jobs_failed = 0, total_jobs_retried = 0,
      current_queue_depth = 0, max_queue_depth = 0\<rparr>"

text \<open>
  \<open>NvM_Init\<close>: the queue is reset, the memory interface re-initialised (its own job
  variables are read nowhere in the manager and are not kept), the diagnostics cleared, the
  registry emptied.
\<close>

definition NvM_Init :: "NvM_JobQueue_t \<times> nvm_globals \<Rightarrow> Std_ReturnType \<times> NvM_JobQueue_t \<times> nvm_globals" where
  "NvM_Init qg =
     (let g = snd qg;
          q1 = NvM_JobQueue_Init;
          (r, hw1) = MemIf_Init (hw g);
          g1 = g\<lparr>hw := hw1, diagnostics := zero_nvm_diagnostics\<rparr>;
          g2 = g1\<lparr>block_count := 0, initialized := True\<rparr>
      in (E_OK, q1, g2))"

definition NvM_RegisterBlock :: "nvm_globals \<Rightarrow> NvM_BlockConfig_t \<Rightarrow> Std_ReturnType \<times> nvm_globals" where
  "NvM_RegisterBlock g block_config =
     (if block_count g \<ge> NVM_MAX_BLOCKS then (E_NOT_OK, g)
      else if \<not> EEPROM_ValidateBlockConfig block_config then (E_NOT_OK, g)
      else
        let b = block_config\<lparr>state := NVM_BLOCKSTATE_UNINITIALIZED, erase_count := 0\<rparr>
        in (E_OK, g\<lparr>blocks := (blocks g)[block_count g := b],
                     block_count := block_count g + 1\<rparr>))"

text \<open>
  The request API takes the scheduler's \<open>OsScheduler_GetVirtualTimeMs()\<close> as \<open>now\<close>.
  \<open>g_job_results[block_id]\<close> is written without a bound check; for \<open>block_id\<close> of 16 and
  more the C writes outside the array, and the model leaves the array as it is.
\<close>

definition NvM_ReadBlock ::
  "NvM_JobQueue_t \<times> nvm_globals \<Rightarrow> u32 \<Rightarrow> u8 \<Rightarrow> nat \<Rightarrow> Std_ReturnType \<times> NvM_JobQueue_t \<times> nvm_globals" where
  "NvM_ReadBlock qg now bid nvm_buffer =
     (let q = fst qg; g = snd qg
      in if \<not> initialized g then (E_NOT_OK, q, g)
         else case find_block g bid of
           None \<Rightarrow> (E_NOT_OK, q, g)
         | Some i \<Rightarrow>
             let block = blocks g ! i;
                 job = \<lparr>job_type = NVM_JOB_READ, job_block_id = bid,
                        job_priority = priority block, job_is_immediate = is_immediate block,
                        data_ptr = nvm_buffer, submit_time_ms = now, timeout_ms = 2000,
                        retry_count = 0, max_retries = 3\<rparr>;
                 (ret, q1) = NvM_JobQueue_Enqueue q job
             in if ret = E_OK
                then (ret, q1, g\<lparr>g_job_results := (g_job_results g)[unat bid := NVM_REQ_PENDING]\<rparr>)
                else (ret, q1, g))"

definition NvM_WriteBlock ::
  "NvM_JobQueue_t \<times> nvm_globals \<Rightarrow> u32 \<Rightarrow> u8 \<Rightarrow> nat \<Rightarrow> Std_ReturnType \<times> NvM_JobQueue_t \<times> nvm_globals" where
  "NvM_WriteBlock qg now bid nvm_buffer =
     (let q = fst qg; g = snd qg
      in if \<not> initialized g then (E_NOT_OK, q, g)
         else case find_block g bid of
           None \<Rightarrow> (E_NOT_OK, q, g)
         | Some i \<Rightarrow>
             let block = blocks g ! i;
                 job = \<lparr>job_type = NVM_JOB_WRITE, job_block_id = bid,
                        job_priority = priority block, job_is_immediate = is_immediate block,
                        data_ptr = nvm_buffer, submit_time_ms = now, timeout_ms = 3000,
                        retry_count = 0, max_retries = 3\<rparr>;
                 (ret, q1) = NvM_JobQueue_Enqueue q job
             in if ret = E_OK
                then (ret, q1, g\<lparr>g_job_results := (g_job_results g)[unat bid := NVM_REQ_PENDING]\<rparr>)
                else (ret, q1, g))"

text \<open>\<open>NvM_GetJobResult\<close>: \<open>None\<close> is \<open>E_NOT_OK\<close>; \<open>Some r\<close> is \<open>E_OK\<close> with \<open>*result_ptr = r\<close>.\<close>

definition NvM_GetJobResult :: "nvm_globals \<Rightarrow> u8 \<Rightarrow> u8 option" where
  "NvM_GetJobResult g bid =
     (if unat bid \<ge> NVM_MAX_BLOCKS then None else Some (g_job_results g ! unat bid))"

text \<open>One pass of the body of the \<open>while\<close> loop of \<open>NvM_MainFunction\<close> for a dequeued job.\<close>

definition dispatch_job :: "nvm_globals \<Rightarrow> NvM_Job_t \<Rightarrow> nvm_globals" where
  "dispatch_job g job =
     (let (ret, g1) =
            (case job_type job of
               NVM_JOB_READ \<Rightarrow> process_read_block g job
             | NVM_JOB_WRITE \<Rightarrow> process_write_block g job
             | NVM_JOB_READ_ALL \<Rightarrow> process_read_all g
             | NVM_JOB_WRITE_ALL \<Rightarrow> process_write_all g);
          g2 = (if job_block_id job \<noteq> 0xFF
                then g1\<lparr>g_job_results := (g_job_results g1)[unat (job_block_id job) :=
                            (if ret = E_OK then NVM_REQ_OK else NVM_REQ_NOT_OK)]\<rparr>
                else g1);
          d = diagnostics g2;
          d1 = d\<lparr>total_jobs_processed := total_jobs_processed d + 1\<rparr>;
          d2 = (if ret \<noteq> E_OK then d1\<lparr>total_jobs_failed := total_jobs_failed d1 + 1\<rparr> else d1)
      in g2\<lparr>diagnostics := d2\<rparr>)"

function main_function_loop :: "NvM_JobQueue_t \<Rightarrow> nvm_globals \<Rightarrow> NvM_JobQueue_t \<times> nvm_globals" where
  "main_function_loop q g =
     (case NvM_JobQueue_Dequeue q of
        None \<Rightarrow> (q, g)
      | Some (job, q1) \<Rightarrow> main_function_loop q1 (dispatch_job g job))"
  by pat_completeness auto
termination
  by (relation "measure (\<lambda>(q, g). count q)")
     (auto simp: NvM_JobQueue_Dequeue_def NvM_JobQueue_IsEmpty_def split: if_splits)

definition NvM_MainFunction :: "NvM_JobQueue_t \<times> nvm_globals \<Rightarrow> u32 \<Rightarrow> NvM_JobQueue_t \<times> nvm_globals" where
  "NvM_MainFunction qg now =
     (let q = fst qg; g = snd qg
      in if \<not> initialized g then (q, g)
         else
           let (timeout_count, q1) = NvM_JobQueue_CheckTimeouts q now;
               (q2, g2) = main_function_loop q1 g
           in (q2, g2\<lparr>diagnostics := (diagnostics g2)\<lparr>current_queue_depth :=
                          of_nat (NvM_JobQueue_GetDepth q2)\<rparr>\<rparr>))"

section \<open>Concrete states for the examples\<close>

definition zero_stats :: SeqlockStats_t where
  "zero_stats =
     \<lparr>read_count = 0, read_retries = 0, write_count = 0, stat_max_retries = 0, data_tears = 0\<rparr>"

text \<open>Sixteen mirrors as the program starts (all zero), and as they are after
  \<open>2\<^sup>3\<^sup>2 - 1\<close> accepted writes to each: the version is \<open>0xFFFFFFFF\<close> and the sequence, two
  steps a write, is \<open>0xFFFFFFFE\<close>.\<close>

definition ex_seqlock_zero :: seqlock_globals where
  "ex_seqlock_zero =
     \<lparr>g_versioned_mirrors =
        replicate 16 \<lparr>meta_combined = 0, mirror_data = replicate 1024 0, mirror_checksum = 0\<rparr>,
      g_seqlock_stats = replicate 16 zero_stats\<rparr>"

definition ex_seqlock_max :: seqlock_globals where
  "ex_seqlock_max =
     \<lparr>g_versioned_mirrors =
        replicate 16 \<lparr>meta_combined = 0xFFFFFFFFFFFFFFFE, mirror_data = replicate 1024 0,
                      mirror_checksum = 0\<rparr>,
      g_seqlock_stats = replicate 16 (zero_stats\<lparr>write_count := 0xFFFFFFFF\<rparr>)\<rparr>"

text \<open>
  The state of the program as it starts: every static object zero, the fault generator at
  its seed. \<open>r\<close> is the application's RAM.
\<close>

definition zero_block :: NvM_BlockConfig_t where
  "zero_block =
     \<lparr>block_id = 0, block_size = 0, block_type = NVM_BLOCK_NATIVE, crc_type = NVM_CRC_NONE,
      priority = 0, is_immediate = False, is_write_protected = False, ram_mirror_ptr = 0,
      rom_block_ptr = None, rom_block_size = 0, eeprom_offset = 0, redundant_eeprom_offset = 0,
      version_control_offset = 0, active_version = 0, dataset_count = 0,
      active_dataset_index = 0, state = NVM_BLOCKSTATE_UNINITIALIZED, erase_count = 0\<rparr>"

definition zero_fault_config :: FaultConfig_t where
  "zero_fault_config =
     \<lparr>fault_id = FAULT_NONE, enabled = False, target_block_id = 0, trigger_count = 0,
      triggered_count = 0, probability_percent = 0\<rparr>"

definition startup_medium :: medium where
  "startup_medium =
     \<lparr>g_config = \<lparr>capacity_bytes = 0, page_size = 0, erase_block_size = 0, endurance_cycles = 0,
                   virtual_storage = []\<rparr>,
      g_erase_counts = [],
      g_diagnostics = zero_diagnostics,
      g_initialized = False,
      g_fault_configs = replicate 16 zero_fault_config,
      g_stats = \<lparr>total_triggered = 0, total_injected = 0, injection_failures = 0\<rparr>,
      g_rand_state = 12345\<rparr>"

definition startup_globals :: "(nat \<Rightarrow> u8 list) \<Rightarrow> nvm_globals" where
  "startup_globals r =
     \<lparr>blocks = replicate NVM_MAX_BLOCKS zero_block, block_count = 0,
      diagnostics = zero_nvm_diagnostics, initialized = False,
      g_job_results = replicate NVM_MAX_BLOCKS 0, hw = startup_medium, ram = r\<rparr>"

text \<open>The manager after \<open>NvM_Init\<close> on the starting state, with no application buffers.\<close>

definition ex_globals :: nvm_globals where
  "ex_globals = snd (snd (NvM_Init (NvM_JobQueue_Init, startup_globals (\<lambda>a. []))))"

text \<open>Two CRC-32 blocks at offset 0: 1021 and 1023 payload bytes.\<close>

definition ex_crc32_block_1021 :: NvM_BlockConfig_t where
  "ex_crc32_block_1021 = zero_block\<lparr>block_id := 1, block_size := 1021, crc_type := NVM_CRC32\<rparr>"

definition ex_crc32_block_1023 :: NvM_BlockConfig_t where
  "ex_crc32_block_1023 = zero_block\<lparr>block_id := 1, block_size := 1023, crc_type := NVM_CRC32\<rparr>"

text \<open>
  The medium after \<open>MemIf_Init\<close> (4096 bytes erased, four erase blocks), and the same
  medium with the second erase block at its endurance limit.
\<close>

definition ex_medium :: medium where
  "ex_medium = snd (MemIf_Init startup_medium)"

definition ex_medium_worn :: medium where
  "ex_medium_worn = ex_medium\<lparr>g_erase_counts := [0, 100000, 0, 0]\<rparr>"

text \<open>A dataset block of two slots at offsets 0 and 1024, last written successfully.\<close>

definition ex_dataset_block :: NvM_BlockConfig_t where
  "ex_dataset_block =
     zero_block\<lparr>block_id := 2, block_size := 256, block_type := NVM_BLOCK_DATASET,
                 crc_type := NVM_CRC16, dataset_count := 2, active_dataset_index := 0,
                 state := NVM_BLOCKSTATE_VALID\<rparr>"

section \<open>Runs of dataset writes\<close>

text \<open>
  The slot offset a dataset write passes to \<open>NvM_WriteBlockWithCrc\<close>: the local \<open>offset\<close>
  of \<open>NvM_WriteDatasetBlock\<close>.
\<close>

definition dataset_write_target :: "NvM_BlockConfig_t \<Rightarrow> u32" where
  "dataset_write_target block = dataset_slot_offset block (next_index block)"

text \<open>
  A run of \<open>NvM_WriteDatasetBlock\<close> calls on one block, one per payload, each call on the
  block record and the driver state the call before left. The trace has what each call
  returns: the status, the block record and the driver state.
\<close>

fun dataset_run ::
  "medium \<Rightarrow> NvM_BlockConfig_t \<Rightarrow> u8 list list \<Rightarrow> (Std_ReturnType \<times> NvM_BlockConfig_t \<times> medium) list" where
  "dataset_run s block [] = []"
| "dataset_run s block (d # ds) =
     (let (r, block1, s1) = NvM_WriteDatasetBlock s block d
      in (r, block1, s1) # dataset_run s1 block1 ds)"

text \<open>The number of calls of a trace that returned \<open>E_OK\<close>.\<close>

definition successes :: "(Std_ReturnType \<times> NvM_BlockConfig_t \<times> medium) list \<Rightarrow> nat" where
  "successes tr = length (filter (\<lambda>e. fst e = E_OK) tr)"

text \<open>
  The driver state the \<open>j\<close>-th call of a run starts from (\<open>s\<close> is the state the run starts
  from), and the block record a run ends with.
\<close>

definition medium_before ::
  "medium \<Rightarrow> (Std_ReturnType \<times> NvM_BlockConfig_t \<times> medium) list \<Rightarrow> nat \<Rightarrow> medium" where
  "medium_before s tr j = (if j = 0 then s else snd (snd (tr ! (j - 1))))"

definition block_after ::
  "NvM_BlockConfig_t \<Rightarrow> (Std_ReturnType \<times> NvM_BlockConfig_t \<times> medium) list \<Rightarrow> NvM_BlockConfig_t" where
  "block_after block tr = (if tr = [] then block else fst (snd (last tr)))"

section \<open>Conditions on the medium\<close>

text \<open>
  No fault injection is enabled: no entry of the fault table has its \<open>enabled\<close> flag set.
\<close>

definition no_faults :: "medium \<Rightarrow> bool" where
  "no_faults s = (\<forall>c \<in> set (g_fault_configs s). \<not> enabled c)"

text \<open>
  A driver state as \<open>Eep_Init\<close> leaves it: initialised, the storage array of
  \<open>capacity_bytes\<close> bytes, one erase counter per erase block, page and erase-block sizes
  not zero, and a capacity of at most \<open>2^31\<close> bytes, so that no address computed from an
  accepted address, a \<open>uint16_t\<close> size and a page wraps around in \<open>uint32_t\<close>.
\<close>

definition medium_ok :: "medium \<Rightarrow> bool" where
  "medium_ok s =
     (g_initialized s \<and>
      length (virtual_storage (g_config s)) = unat (capacity_bytes (g_config s)) \<and>
      unat (capacity_bytes (g_config s)) \<le> 2 ^ 31 \<and>
      page_size (g_config s) \<noteq> 0 \<and>
      erase_block_size (g_config s) \<noteq> 0 \<and>
      unat (erase_block_size (g_config s)) \<le> unat (capacity_bytes (g_config s)) \<and>
      length (g_erase_counts s)
        = unat (capacity_bytes (g_config s) div erase_block_size (g_config s)))"

text \<open>Two driver states with the same geometry, initialisation flag and fault table.\<close>

definition same_frame :: "medium \<Rightarrow> medium \<Rightarrow> bool" where
  "same_frame s s' =
     (g_initialized s' = g_initialized s \<and>
      capacity_bytes (g_config s') = capacity_bytes (g_config s) \<and>
      page_size (g_config s') = page_size (g_config s) \<and>
      erase_block_size (g_config s') = erase_block_size (g_config s) \<and>
      endurance_cycles (g_config s') = endurance_cycles (g_config s) \<and>
      length (g_erase_counts s') = length (g_erase_counts s) \<and>
      length (virtual_storage (g_config s')) = length (virtual_storage (g_config s)) \<and>
      g_fault_configs s' = g_fault_configs s)"

text \<open>
  The slot at \<open>offset\<close> holds the payload \<open>d\<close> of \<open>sz\<close> bytes with its CRC: both byte
  runs lie inside the medium, the payload bytes are there and, unless the CRC kind is None,
  the two bytes behind them are the CRC of the payload.
\<close>

definition slot_holds :: "medium \<Rightarrow> u32 \<Rightarrow> u16 \<Rightarrow> NvM_CrcType_t \<Rightarrow> u8 list \<Rightarrow> bool" where
  "slot_holds s offset sz crc_ty d =
     (validate_address s offset (ucast sz) \<and>
      take (unat sz) (drop (unat offset) (virtual_storage (g_config s))) = take (unat sz) d \<and>
      (crc_ty \<noteq> NVM_CRC_NONE \<longrightarrow>
         validate_address s (offset + ucast sz) 2 \<and>
         take 2 (drop (unat offset + unat sz) (virtual_storage (g_config s)))
           = u16_bytes (Crc16_Calculate d (ucast sz))))"

text \<open>A dataset block of three slots at offsets 0, 1024 and 2048.\<close>

definition ex_dataset3 :: NvM_BlockConfig_t where
  "ex_dataset3 =
     zero_block\<lparr>block_id := 3, block_size := 256, block_type := NVM_BLOCK_DATASET,
                 crc_type := NVM_CRC16, dataset_count := 3, active_dataset_index := 0\<rparr>"

text \<open>
  The bytes of the slot at \<open>offset\<close> are the same in two states of the medium: the slot is
  intact from one to the other.
\<close>

definition slot_intact :: "medium \<Rightarrow> medium \<Rightarrow> u32 \<Rightarrow> bool" where
  "slot_intact s s' offset =
     (\<forall>i < EEPROM_BLOCK_SLOT_SIZE.
        virtual_storage (g_config s') ! (unat offset + i)
          = virtual_storage (g_config s) ! (unat offset + i))"

text \<open>
  A redundant block with its primary slot at 0 and its backup slot at 1024, and a medium
  state with the bytes from an address on overwritten (a corruption of the stored bytes).
\<close>

definition ex_redundant_block :: NvM_BlockConfig_t where
  "ex_redundant_block =
     zero_block\<lparr>block_id := 4, block_size := 256, block_type := NVM_BLOCK_REDUNDANT,
                 crc_type := NVM_CRC16, eeprom_offset := 0, redundant_eeprom_offset := 1024\<rparr>"

definition overwrite_at :: "medium \<Rightarrow> nat \<Rightarrow> u8 list \<Rightarrow> medium" where
  "overwrite_at s a bytes = set_storage s (store_bytes (virtual_storage (g_config s)) a bytes)"

text \<open>
  The payload of the examples, the bytes a corruption leaves in a primary slot (an erased
  payload with a zero CRC), and the redundant block written to the fresh and to the worn
  medium, with the medium corrupted afterwards in the primary slot only.
\<close>

definition ex_payload :: "u8 list" where
  "ex_payload = replicate 256 0xAA"

definition ex_corruption :: "u8 list" where
  "ex_corruption = replicate 256 0xFF @ [0, 0]"

definition ex_redundant_written :: "Std_ReturnType \<times> NvM_BlockConfig_t \<times> medium" where
  "ex_redundant_written = NvM_WriteRedundantBlock ex_medium ex_redundant_block ex_payload"

definition ex_redundant_corrupted :: medium where
  "ex_redundant_corrupted = overwrite_at (snd (snd ex_redundant_written)) 0 ex_corruption"

definition ex_worn_written :: "Std_ReturnType \<times> NvM_BlockConfig_t \<times> medium" where
  "ex_worn_written = NvM_WriteRedundantBlock ex_medium_worn ex_redundant_block ex_payload"

definition ex_worn_corrupted :: medium where
  "ex_worn_corrupted = overwrite_at (snd (snd ex_worn_written)) 0 ex_corruption"

section \<open>Properties\<close>

lemma mask32_u64: "(0xFFFFFFFF::u64) = mask 32"
  by (simp add: mask_eq_exp_minus_1)

lemma meta_version_pack: "meta_version (pack_meta v s) = v"
  unfolding meta_version_def pack_meta_def mask32_u64
  by (rule bit_word_eqI) (auto simp: bit_simps dest: bit_imp_le_length)

lemma meta_sequence_pack: "meta_sequence (pack_meta v s) = s"
  unfolding meta_sequence_def pack_meta_def mask32_u64
  by (rule bit_word_eqI) (auto simp: bit_simps dest: bit_imp_le_length)

subsection \<open>Versioned seqlock writer\<close>

lemma u32_less_succ:
  assumes "(v::u32) \<noteq> 0xFFFFFFFF" shows "v < v + 1"
proof -
  have "unat v \<noteq> unat (0xFFFFFFFF::u32)"
    using assms by (simp add: word_unat_eq_iff)
  moreover have "unat v < 2 ^ 32"
    using unsigned_less[of v, where ?'a=nat] by simp
  ultimately have "unat v + 1 < 2 ^ 32" by simp
  then have "unat (v + 1) = unat v + 1"
    by (simp add: unat_word_ariths)
  then show ?thesis by (simp add: word_less_nat_alt)
qed

lemma seqlock_write_accept:
  assumes "unat bid < length (g_versioned_mirrors g)" "unat sz \<le> RAM_MIRROR_MAX_BLOCK_SIZE"
  shows "fst (RamMirror_SeqlockWriteVersioned g bid (Some bytes) sz) = E_OK"
    and "version_of (snd (RamMirror_SeqlockWriteVersioned g bid (Some bytes) sz)) bid
          = version_of g bid + 1"
    and "sequence_of (snd (RamMirror_SeqlockWriteVersioned g bid (Some bytes) sz)) bid
          = sequence_of g bid + 2"
  using assms
  by (simp_all add: RamMirror_SeqlockWriteVersioned_def Let_def version_of_def sequence_of_def
        meta_version_pack meta_sequence_pack)

lemma seqlock_write_reject:
  "unat sz > RAM_MIRROR_MAX_BLOCK_SIZE \<Longrightarrow>
     RamMirror_SeqlockWriteVersioned g bid data sz = (E_NOT_OK, g)"
  "unat bid \<ge> length (g_versioned_mirrors g) \<Longrightarrow>
     RamMirror_SeqlockWriteVersioned g bid data sz = (E_NOT_OK, g)"
  "RamMirror_SeqlockWriteVersioned g bid None sz = (E_NOT_OK, g)"
  by (simp_all add: RamMirror_SeqlockWriteVersioned_def split: option.splits)

lemma ex_seqlock_max_version: "version_of ex_seqlock_max 5 = 0xFFFFFFFF"
  by (simp add: version_of_def ex_seqlock_max_def meta_version_def)

text \<open>
  Claim C9, as amended. A call of \<open>RamMirror_SeqlockWriteVersioned\<close> that passes the
  argument check (block id below the number of mirrors, a non-NULL buffer, a size of at most
  \<open>RAM_MIRROR_MAX_BLOCK_SIZE\<close>) returns \<open>E_OK\<close> and leaves the version field of the meta
  word at the old version plus one in 32-bit arithmetic, whatever the payload; the version
  is strictly greater than before unless it was \<open>0xFFFFFFFF\<close>.
\<close>

theorem seqlock_version_incremented:
  assumes "unat bid < length (g_versioned_mirrors g)" "unat sz \<le> RAM_MIRROR_MAX_BLOCK_SIZE"
  shows "fst (RamMirror_SeqlockWriteVersioned g bid (Some bytes) sz) = E_OK \<and>
     version_of (snd (RamMirror_SeqlockWriteVersioned g bid (Some bytes) sz)) bid
          = version_of g bid + 1 \<and>
     (version_of g bid \<noteq> 0xFFFFFFFF \<longrightarrow>
        version_of g bid
          < version_of (snd (RamMirror_SeqlockWriteVersioned g bid (Some bytes) sz)) bid)"
  using seqlock_write_accept[OF assms, of bytes] u32_less_succ
  by simp

theorem seqlock_version_incremented_witness:
  "unat (5::u8) < length (g_versioned_mirrors ex_seqlock_zero) \<and>
   unat (4::u16) \<le> RAM_MIRROR_MAX_BLOCK_SIZE \<and>
   version_of ex_seqlock_zero 5 = 0 \<and>
   fst (RamMirror_SeqlockWriteVersioned ex_seqlock_zero 5 (Some (replicate 4 0xAA)) 4) = E_OK \<and>
   version_of (snd (RamMirror_SeqlockWriteVersioned ex_seqlock_zero 5 (Some (replicate 4 0xAA)) 4)) 5 = 1"
proof -
  have a: "unat (5::u8) < length (g_versioned_mirrors ex_seqlock_zero)"
    by (simp add: ex_seqlock_zero_def)
  have b: "unat (4::u16) \<le> RAM_MIRROR_MAX_BLOCK_SIZE"
    by (simp add: RAM_MIRROR_MAX_BLOCK_SIZE_def)
  have c: "version_of ex_seqlock_zero 5 = 0"
    by (simp add: version_of_def ex_seqlock_zero_def meta_version_def)
  show ?thesis
    using seqlock_version_incremented[OF a b, of "replicate 4 0xAA"] a b c
    by simp
qed

text \<open>
  The claim as stated fails where the 32-bit version is at its maximum: the call is
  accepted and the version wraps to 0, which is not greater.
\<close>

theorem seqlock_version_counterexample:
  "fst (RamMirror_SeqlockWriteVersioned ex_seqlock_max 5 (Some (replicate 4 0xAA)) 4) = E_OK \<and>
   version_of ex_seqlock_max 5 = 0xFFFFFFFF \<and>
   version_of (snd (RamMirror_SeqlockWriteVersioned ex_seqlock_max 5 (Some (replicate 4 0xAA)) 4)) 5 = 0 \<and>
   \<not> (version_of ex_seqlock_max 5
        < version_of (snd (RamMirror_SeqlockWriteVersioned ex_seqlock_max 5 (Some (replicate 4 0xAA)) 4)) 5)"
proof -
  have a: "unat (5::u8) < length (g_versioned_mirrors ex_seqlock_max)"
    by (simp add: ex_seqlock_max_def)
  have b: "unat (4::u16) \<le> RAM_MIRROR_MAX_BLOCK_SIZE"
    by (simp add: RAM_MIRROR_MAX_BLOCK_SIZE_def)
  show ?thesis
    using seqlock_write_accept[OF a b, of "replicate 4 0xAA"] ex_seqlock_max_version
    by simp
qed

subsection \<open>Registration and layout validation\<close>

lemma unat_ucast_16_32: "unat (ucast (w::u16) :: u32) = unat w"
proof -
  have "unat w < 2 ^ 16" using unsigned_less[of w, where ?'a=nat] by simp
  then have "unat w < 2 ^ 32" by simp
  then show ?thesis by (simp add: unsigned_ucast_eq take_bit_nat_eq_self)
qed

lemma validate_rejects_oversize:
  assumes big: "unat (block_size cfg) + 2 > EEPROM_BLOCK_SLOT_SIZE"
    and nowrap: "unat (eeprom_offset cfg) + unat (block_size cfg) + 2 < 2 ^ 32"
  shows "\<not> EEPROM_ValidateBlockConfig cfg"
proof -
  let ?o = "eeprom_offset cfg"
  let ?s = "ucast (block_size cfg) :: u32"
  have s: "unat ?s = unat (block_size cfg)"
    by (rule unat_ucast_16_32)
  have l: "unat (?o + ?s + 2) = unat ?o + unat (block_size cfg) + 2"
    using nowrap s by (simp add: unat_word_ariths)
  have r: "unat (?o + 1024) \<le> unat ?o + 1024"
    by (simp add: unat_word_ariths)
  have "?o + ?s + 2 > ?o + 1024"
    using l r big by (simp add: word_less_nat_alt EEPROM_BLOCK_SLOT_SIZE_def)
  then show ?thesis
    by (simp add: EEPROM_ValidateBlockConfig_def Let_def EEPROM_BLOCK_SLOT_SIZE_def)
qed

lemma ex_globals_block_count: "block_count ex_globals = 0"
  by (simp add: ex_globals_def NvM_Init_def Let_def split_def)

text \<open>
  Claim C8, as amended. \<open>NvM_RegisterBlock\<close> returns \<open>E_NOT_OK\<close> and leaves the registry
  as it was for every configuration whose \<open>block_size\<close> plus CRC size exceeds the slot size,
  where the CRC size is 0, 1 or 2 bytes for the kinds None, CRC-8 and CRC-16 and is taken as
  2 bytes for CRC-32 as well (the validation assumes a CRC16 for every kind), and where
  \<open>eeprom_offset + block_size + 2\<close> does not overflow 32 bits.
\<close>

theorem register_block_rejects_oversize:
  assumes "unat (block_size cfg) + unat (layout_crc_size (crc_type cfg)) > EEPROM_BLOCK_SLOT_SIZE"
    and "crc_type cfg = NVM_CRC32 \<longrightarrow> unat (block_size cfg) + 2 > EEPROM_BLOCK_SLOT_SIZE"
    and "unat (eeprom_offset cfg) + unat (block_size cfg) + 2 < 2 ^ 32"
  shows "NvM_RegisterBlock g cfg = (E_NOT_OK, g)"
proof -
  have "unat (block_size cfg) + 2 > EEPROM_BLOCK_SLOT_SIZE"
    using assms(1,2) by (cases "crc_type cfg") (simp_all add: layout_crc_size_def)
  then have "\<not> EEPROM_ValidateBlockConfig cfg"
    using assms(3) by (rule validate_rejects_oversize)
  then show ?thesis by (simp add: NvM_RegisterBlock_def)
qed

theorem register_block_rejects_oversize_witness:
  "unat (block_size ex_crc32_block_1023) + unat (layout_crc_size (crc_type ex_crc32_block_1023))
     > EEPROM_BLOCK_SLOT_SIZE \<and>
   unat (block_size ex_crc32_block_1023) + 2 > EEPROM_BLOCK_SLOT_SIZE \<and>
   NvM_RegisterBlock ex_globals ex_crc32_block_1023 = (E_NOT_OK, ex_globals)"
proof -
  have a: "unat (block_size ex_crc32_block_1023) + unat (layout_crc_size (crc_type ex_crc32_block_1023))
     > EEPROM_BLOCK_SLOT_SIZE"
    by (simp add: ex_crc32_block_1023_def zero_block_def layout_crc_size_def EEPROM_BLOCK_SLOT_SIZE_def)
  have b: "unat (block_size ex_crc32_block_1023) + 2 > EEPROM_BLOCK_SLOT_SIZE"
    by (simp add: ex_crc32_block_1023_def zero_block_def EEPROM_BLOCK_SLOT_SIZE_def)
  have c: "unat (eeprom_offset ex_crc32_block_1023) + unat (block_size ex_crc32_block_1023) + 2 < 2 ^ 32"
    by (simp add: ex_crc32_block_1023_def zero_block_def)
  show ?thesis
    using register_block_rejects_oversize[of ex_crc32_block_1023 ex_globals] a b c by simp
qed

text \<open>
  The claim as stated fails for CRC-32: a native block of 1021 payload bytes needs
  \<open>1021 + 4 = 1025\<close> bytes with its CRC, more than the slot, and is registered.
\<close>

theorem register_block_crc32_counterexample:
  "unat (block_size ex_crc32_block_1021) + unat (layout_crc_size (crc_type ex_crc32_block_1021))
     > EEPROM_BLOCK_SLOT_SIZE \<and>
   fst (NvM_RegisterBlock ex_globals ex_crc32_block_1021) = E_OK"
  by (simp add: NvM_RegisterBlock_def ex_globals_block_count EEPROM_ValidateBlockConfig_def
        ex_crc32_block_1021_def zero_block_def layout_crc_size_def EEPROM_BLOCK_SLOT_SIZE_def
        Let_def NVM_MAX_BLOCKS_def EEPROM_IS_SLOT_ALIGNED_def)

subsection \<open>Initialisation and the job results\<close>

lemma NvM_Init_job_results: "g_job_results (snd (snd (NvM_Init (q, g)))) = g_job_results g"
  by (simp add: NvM_Init_def Let_def split_def)

text \<open>
  Claim C10. \<open>NvM_Init\<close> leaves \<open>g_job_results\<close> as it is, so \<open>NvM_GetJobResult\<close> returns
  for every block id what it returned before the call; and after \<open>NvM_Init\<close> on the starting
  state every block id below \<open>NVM_MAX_BLOCKS\<close> reports \<open>NVM_REQ_OK\<close> (0), not
  \<open>NVM_REQ_PENDING\<close>.
\<close>

theorem init_keeps_job_results:
  "g_job_results (snd (snd (NvM_Init (q, g)))) = g_job_results g \<and>
   NvM_GetJobResult (snd (snd (NvM_Init (q, g)))) bid = NvM_GetJobResult g bid \<and>
   (unat bid < NVM_MAX_BLOCKS \<longrightarrow>
      NvM_GetJobResult (snd (snd (NvM_Init (NvM_JobQueue_Init, startup_globals r)))) bid
        = Some NVM_REQ_OK \<and> NVM_REQ_OK \<noteq> NVM_REQ_PENDING)"
  by (simp add: NvM_Init_job_results NvM_GetJobResult_def startup_globals_def
        NVM_REQ_OK_def NVM_REQ_PENDING_def)

theorem init_keeps_job_results_witness:
  "unat (3::u8) < NVM_MAX_BLOCKS \<and>
   NvM_GetJobResult (snd (snd (NvM_Init (NvM_JobQueue_Init, startup_globals (\<lambda>a. []))))) 3
     = Some 0"
proof -
  have a: "unat (3::u8) < NVM_MAX_BLOCKS" by (simp add: NVM_MAX_BLOCKS_def)
  from init_keeps_job_results[of NvM_JobQueue_Init "startup_globals (\<lambda>a. [])" 3 "\<lambda>a. []"] a
  have "NvM_GetJobResult (snd (snd (NvM_Init (NvM_JobQueue_Init, startup_globals (\<lambda>a. []))))) 3
          = Some NVM_REQ_OK"
    by blast
  then show ?thesis using a by (simp add: NVM_REQ_OK_def)
qed

subsection \<open>The medium without faults\<close>

lemma find_config_loop_bound:
  "find_config_loop cs fid k = Some i \<Longrightarrow> k \<le> i \<and> i < k + length cs"
  by (induction cs fid k rule: find_config_loop.induct) (auto split: if_splits)

lemma fault_fires_none:
  assumes "no_faults s" shows "fault_fires s fid = (None, s)"
proof (cases "find_config s fid")
  case None
  then show ?thesis by (simp add: fault_fires_def)
next
  case (Some i)
  then have "i < length (g_fault_configs s)"
    using find_config_loop_bound[of "g_fault_configs s" fid 0 i] by (simp add: find_config_def)
  then have "\<not> enabled (g_fault_configs s ! i)"
    using assms by (simp add: no_faults_def)
  then show ?thesis using Some by (simp add: fault_fires_def should_trigger_def)
qed

lemma hooks_no_faults:
  assumes "no_faults s"
  shows "FaultInj_HookAfterRead s buf len = (False, buf, s)"
    and "FaultInj_HookBeforeWrite s a len = (False, s)"
    and "FaultInj_HookAfterWrite s a = (False, s)"
    and "FaultInj_HookBeforeRead s a len = (False, s)"
  using fault_fires_none[OF assms]
  by (simp_all add: FaultInj_HookAfterRead_def FaultInj_HookBeforeWrite_def
        FaultInj_HookAfterWrite_def FaultInj_HookBeforeRead_def)

lemma same_frame_refl: "same_frame s s" by (simp add: same_frame_def)

lemma same_frame_trans: "same_frame s s' \<Longrightarrow> same_frame s' s'' \<Longrightarrow> same_frame s s''"
  by (simp add: same_frame_def)

lemma same_frame_no_faults: "same_frame s s' \<Longrightarrow> no_faults s \<Longrightarrow> no_faults s'"
  by (simp add: same_frame_def no_faults_def)

lemma same_frame_medium_ok: "same_frame s s' \<Longrightarrow> medium_ok s \<Longrightarrow> medium_ok s'"
  by (simp add: same_frame_def medium_ok_def)

lemma same_frame_validate: "same_frame s s' \<Longrightarrow> validate_address s' a n = validate_address s a n"
  by (simp add: same_frame_def validate_address_def)

lemma length_store_bytes:
  "a + length bytes \<le> length st \<Longrightarrow> length (store_bytes st a bytes) = length st"
  by (simp add: store_bytes_def)

lemma read_store_bytes_same:
  "a + length bytes \<le> length st \<Longrightarrow> take (length bytes) (drop a (store_bytes st a bytes)) = bytes"
  by (simp add: store_bytes_def)

lemma read_store_bytes_other:
  assumes "a + length bytes \<le> length st" "b + n \<le> a \<or> a + length bytes \<le> b"
  shows "take n (drop b (store_bytes st a bytes)) = take n (drop b st)"
proof (rule nth_equalityI)
  show "length (take n (drop b (store_bytes st a bytes))) = length (take n (drop b st))"
    using assms(1) by (simp add: length_store_bytes)
next
  fix i assume "i < length (take n (drop b (store_bytes st a bytes)))"
  then have i: "i < n" "b + i < length st" using assms(1) by (auto simp: length_store_bytes)
  have "store_bytes st a bytes ! (b + i) = st ! (b + i)"
    using assms i by (auto simp: store_bytes_def nth_append)
  then show "take n (drop b (store_bytes st a bytes)) ! i = take n (drop b st) ! i"
    using i assms(1) by (simp add: length_store_bytes)
qed

lemma validate_address_nat:
  assumes "medium_ok s" "validate_address s a n" "unat n \<le> 2 ^ 31"
  shows "unat a + unat n \<le> length (virtual_storage (g_config s))"
proof -
  let ?c = "capacity_bytes (g_config s)"
  have c: "unat ?c \<le> 2 ^ 31" and l: "length (virtual_storage (g_config s)) = unat ?c"
    using assms(1) by (simp_all add: medium_ok_def)
  have a: "a < ?c" and an: "a + n \<le> ?c"
    using assms(2) by (simp_all add: validate_address_def split: if_splits)
  have "unat a < unat ?c" using a by (simp add: word_less_nat_alt)
  then have "unat a + unat n < 2 ^ 32" using c assms(3) by simp
  then have "unat (a + n) = unat a + unat n" by (simp add: unat_word_ariths)
  then show ?thesis using an l by (simp add: word_le_nat_alt)
qed

lemma Eep_Read_no_faults:
  assumes "no_faults s"
  shows "Eep_Read s a buf len =
     (if validate_address s a len
      then (E_OK, memcpy buf (drop (unat a) (virtual_storage (g_config s))) (unat len),
            s\<lparr>g_diagnostics := (g_diagnostics s)\<lparr>total_read_count := total_read_count (g_diagnostics s) + 1,
                  total_bytes_read := total_bytes_read (g_diagnostics s) + len\<rparr>\<rparr>)
      else (E_NOT_OK, buf, s))"
  using hooks_no_faults[OF assms]
  by (simp add: Eep_Read_def Let_def)

lemma MemIf_Read_cases:
  assumes "no_faults s" "MemIf_Read s a buf len = (r, buf', s')"
  shows "same_frame s s'"
    and "virtual_storage (g_config s') = virtual_storage (g_config s)"
    and "r = E_OK \<or> r = E_NOT_OK"
    and "r = E_OK \<longleftrightarrow> validate_address s a len"
    and "r = E_OK \<Longrightarrow> buf' = memcpy buf (drop (unat a) (virtual_storage (g_config s))) (unat len)"
    and "r \<noteq> E_OK \<Longrightarrow> buf' = buf"
  using assms(2)
  by (auto simp: MemIf_Read_def Eep_Read_no_faults[OF assms(1)] same_frame_def split: if_splits)

lemma Eep_Write_no_faults:
  assumes "no_faults s"
  shows "Eep_Write s a d len =
     (if validate_address s a len \<and> Eep_IsPageAligned s a \<and> len mod page_size (g_config s) = 0 \<and>
         (\<forall>b \<in> set (take (unat len) (drop (unat a) (virtual_storage (g_config s)))). b = 0xFF)
      then (E_OK, (set_storage s (store_bytes (virtual_storage (g_config s)) (unat a) (take (unat len) d)))
               \<lparr>g_diagnostics := (g_diagnostics s)\<lparr>total_write_count := total_write_count (g_diagnostics s) + 1,
                  total_bytes_written := total_bytes_written (g_diagnostics s) + len\<rparr>\<rparr>)
      else (E_NOT_OK, s))"
proof -
  have nf: "no_faults (set_storage s st\<lparr>g_diagnostics := dd\<rparr>)" for st dd
    using assms by (simp add: no_faults_def set_storage_def)
  show ?thesis
    using hooks_no_faults[OF assms] hooks_no_faults[OF nf]
    by (auto simp: Eep_Write_def Let_def set_storage_def)
qed

lemma MemIf_Write_cases:
  assumes "no_faults s" "medium_ok s" "unat len \<le> 2 ^ 31" "MemIf_Write s a d len = (r, s')"
  shows "same_frame s s'"
    and "g_erase_counts s' = g_erase_counts s"
    and "r = E_OK \<or> r = E_NOT_OK"
    and "r \<noteq> E_OK \<Longrightarrow> s' = s"
    and "r = E_OK \<Longrightarrow> validate_address s a len"
    and "r = E_OK \<Longrightarrow> virtual_storage (g_config s')
            = store_bytes (virtual_storage (g_config s)) (unat a) (take (unat len) d)"
    and "r = E_OK \<Longrightarrow> (\<forall>b \<in> set (take (unat len) (drop (unat a) (virtual_storage (g_config s)))). b = 0xFF)"
proof -
  have len: "validate_address s a len \<Longrightarrow>
      length (store_bytes (virtual_storage (g_config s)) (unat a) (take (unat len) d))
        = length (virtual_storage (g_config s))"
    using validate_address_nat[OF assms(2) _ assms(3), of a]
    by (intro length_store_bytes) simp
  show "same_frame s s'" "g_erase_counts s' = g_erase_counts s" "r = E_OK \<or> r = E_NOT_OK"
    "r \<noteq> E_OK \<Longrightarrow> s' = s"  "r = E_OK \<Longrightarrow> validate_address s a len"
    "r = E_OK \<Longrightarrow> virtual_storage (g_config s')
            = store_bytes (virtual_storage (g_config s)) (unat a) (take (unat len) d)"
    "r = E_OK \<Longrightarrow> (\<forall>b \<in> set (take (unat len) (drop (unat a) (virtual_storage (g_config s)))). b = 0xFF)"
    using assms(4) len
    by (auto simp: MemIf_Write_def Eep_Write_no_faults[OF assms(1)] same_frame_def set_storage_def
             split: if_splits)
qed

lemma MemIf_Erase_cases:
  assumes "medium_ok s" "MemIf_Erase s a len = (r, s')"
  shows "same_frame s s'"
    and "g_fault_configs s' = g_fault_configs s"
    and "r = E_OK \<or> r = E_NOT_OK"
    and "r \<noteq> E_OK \<Longrightarrow> s' = s"
    and "r = E_OK \<Longrightarrow> validate_address s a (erase_block_size (g_config s))"
    and "r = E_OK \<Longrightarrow> virtual_storage (g_config s')
            = store_bytes (virtual_storage (g_config s)) (unat a)
                (replicate (unat (erase_block_size (g_config s))) 0xFF)"
proof -
  have b: "unat (erase_block_size (g_config s)) \<le> 2 ^ 31"
    using assms(1) by (simp add: medium_ok_def)
  have len: "validate_address s a (erase_block_size (g_config s)) \<Longrightarrow>
      length (store_bytes (virtual_storage (g_config s)) (unat a)
                (replicate (unat (erase_block_size (g_config s))) 0xFF))
        = length (virtual_storage (g_config s))"
    using validate_address_nat[OF assms(1) _ b, of a]
    by (intro length_store_bytes) simp
  show "same_frame s s'" "g_fault_configs s' = g_fault_configs s" "r = E_OK \<or> r = E_NOT_OK"
    "r \<noteq> E_OK \<Longrightarrow> s' = s"
    "r = E_OK \<Longrightarrow> validate_address s a (erase_block_size (g_config s))"
    "r = E_OK \<Longrightarrow> virtual_storage (g_config s')
            = store_bytes (virtual_storage (g_config s)) (unat a)
                (replicate (unat (erase_block_size (g_config s))) 0xFF)"
    using assms(2) len
    by (auto simp: MemIf_Erase_def Eep_Erase_def Let_def same_frame_def set_storage_def
             split: if_splits)
qed

subsection \<open>Reading a slot that holds a payload\<close>

lemma Crc16_Calculate_take:
  "take (unat len) d = take (unat len) d' \<Longrightarrow> Crc16_Calculate d len = Crc16_Calculate d' len"
  by (simp add: Crc16_Calculate_def Crc16_CalculateExtended_def)

lemma bytes_u16_u16_bytes: "bytes_u16 (u16_bytes c) = c"
  unfolding bytes_u16_def u16_bytes_def
  by (rule bit_word_eqI) (auto simp: bit_simps dest: bit_imp_le_length)

lemma u16_bytes_length: "length (u16_bytes c) = 2"
  by (simp add: u16_bytes_def)

lemma validate_address_of_nat:
  assumes "medium_ok s" "unat a < unat (capacity_bytes (g_config s))"
    "unat a + unat n \<le> unat (capacity_bytes (g_config s))"
  shows "validate_address s a n"
proof -
  let ?c = "capacity_bytes (g_config s)"
  have c: "unat ?c \<le> 2 ^ 31" and i: "g_initialized s"
    using assms(1) by (simp_all add: medium_ok_def)
  have "unat a + unat n < 2 ^ 32" using c assms(3) by simp
  then have "unat (a + n) = unat a + unat n" by (simp add: unat_word_ariths)
  then have "a + n \<le> ?c" using assms(3) by (simp add: word_le_nat_alt)
  moreover have "a < ?c" using assms(2) by (simp add: word_less_nat_alt)
  ultimately show ?thesis using i by (simp add: validate_address_def not_less not_le)
qed

lemma validate_address_lt:
  "validate_address s a n \<Longrightarrow> unat a < unat (capacity_bytes (g_config s))"
  by (simp add: validate_address_def word_le_nat_alt not_le split: if_splits)

lemma slot_end_unat:
  assumes "medium_ok s" "validate_address s off (ucast (sz::u16))"
  shows "unat (off + ucast sz) = unat off + unat sz"
proof -
  have "unat off < unat (capacity_bytes (g_config s))"
    using assms(2) by (rule validate_address_lt)
  moreover have "unat (capacity_bytes (g_config s)) \<le> 2 ^ 31"
    using assms(1) by (simp add: medium_ok_def)
  moreover have "unat sz < 2 ^ 16" using unsigned_less[of sz, where ?'a=nat] by simp
  ultimately have "unat off + unat sz < 2 ^ 32" by simp
  then show ?thesis by (simp add: unat_word_ariths unat_ucast_16_32)
qed

lemma unat_sz_le: "unat (ucast (sz::u16) :: u32) \<le> 2 ^ 31"
proof -
  have "unat sz < 2 ^ 16" using unsigned_less[of sz, where ?'a=nat] by simp
  then show ?thesis by (simp add: unat_ucast_16_32)
qed

lemma try_read_frame:
  assumes "no_faults s" "NvM_TryReadBlock s off buf sz crc = (ok, buf', s')"
  shows "same_frame s s'" and "virtual_storage (g_config s') = virtual_storage (g_config s)"
    and "g_erase_counts s' = g_erase_counts s"
proof -
  obtain r1 b1 s1 where r1: "MemIf_Read s off buf (ucast sz) = (r1, b1, s1)"
    by (metis prod_cases3)
  note c1 = MemIf_Read_cases[OF assms(1) r1]
  have nf1: "no_faults s1" using c1(1) assms(1) by (rule same_frame_no_faults)
  obtain r2 b2 s2 where r2: "MemIf_Read s1 (off + ucast sz) (u16_bytes 0) 2 = (r2, b2, s2)"
    by (metis prod_cases3)
  note c2 = MemIf_Read_cases[OF nf1 r2]
  have e1: "g_erase_counts s1 = g_erase_counts s"
    using r1 by (auto simp: MemIf_Read_def Eep_Read_no_faults[OF assms(1)] split: if_splits)
  have e2: "g_erase_counts s2 = g_erase_counts s1"
    using r2 by (auto simp: MemIf_Read_def Eep_Read_no_faults[OF nf1] split: if_splits)
  have "s' = s1 \<or> s' = s2"
    using assms(2) r1 r2
    by (auto simp: NvM_TryReadBlock_def Let_def split: if_splits Std_ReturnType.splits)
  then show "same_frame s s'" "virtual_storage (g_config s') = virtual_storage (g_config s)"
    "g_erase_counts s' = g_erase_counts s"
    using c1(1,2) c2(1,2) e1 e2 same_frame_trans by auto
qed

lemma try_read_holds:
  assumes nf: "no_faults s" and ok: "medium_ok s" and h: "slot_holds s off sz crc d"
  shows "fst (NvM_TryReadBlock s off buf sz crc) = True"
    and "fst (snd (NvM_TryReadBlock s off buf sz crc)) = take (unat sz) d @ drop (unat sz) buf"
proof -
  let ?st = "virtual_storage (g_config s)"
  let ?n = "unat sz"
  have v: "validate_address s off (ucast sz)" and p: "take ?n (drop (unat off) ?st) = take ?n d"
    using h by (simp_all add: slot_holds_def)
  obtain r1 b1 s1 where r1: "MemIf_Read s off buf (ucast sz) = (r1, b1, s1)"
    by (metis prod_cases3)
  note c1 = MemIf_Read_cases[OF nf r1]
  have ok1: "r1 = E_OK" using c1(4) v by simp
  have b1: "b1 = take ?n d @ drop ?n buf"
    using c1(5)[OF ok1] p by (simp add: memcpy_def unat_ucast_16_32)
  have nf1: "no_faults s1" using c1(1) nf by (rule same_frame_no_faults)
  have "unat off + ?n \<le> length ?st"
    using validate_address_nat[OF ok v unat_sz_le] by (simp add: unat_ucast_16_32)
  then have "length (take ?n (drop (unat off) ?st)) = ?n" by simp
  then have nd: "?n \<le> length d" using p by (metis length_take min.cobounded1 min_def)
  show "fst (NvM_TryReadBlock s off buf sz crc) = True"
    and "fst (snd (NvM_TryReadBlock s off buf sz crc)) = take (unat sz) d @ drop (unat sz) buf"
  proof -
    have "NvM_TryReadBlock s off buf sz crc = (True, b1, snd (snd (NvM_TryReadBlock s off buf sz crc)))"
    proof (cases "crc = NVM_CRC_NONE")
      case True
      then show ?thesis using r1 ok1 by (simp add: NvM_TryReadBlock_def)
    next
      case False
      then have v2: "validate_address s (off + ucast sz) 2"
        and cb: "take 2 (drop (unat off + ?n) ?st) = u16_bytes (Crc16_Calculate d (ucast sz))"
        using h by (simp_all add: slot_holds_def)
      obtain r2 b2 s2 where r2: "MemIf_Read s1 (off + ucast sz) (u16_bytes 0) 2 = (r2, b2, s2)"
        by (metis prod_cases3)
      note c2 = MemIf_Read_cases[OF nf1 r2]
      have ok2: "r2 = E_OK" using c2(4) v2 same_frame_validate[OF c1(1)] by simp
      have "b2 = u16_bytes (Crc16_Calculate d (ucast sz))"
        using c2(5)[OF ok2] c1(2) cb slot_end_unat[OF ok v]
        by (simp add: memcpy_def u16_bytes_length)
      moreover have "Crc16_Calculate b1 (ucast sz) = Crc16_Calculate d (ucast sz)"
        by (rule Crc16_Calculate_take) (simp add: b1 unat_ucast_16_32 nd)
      ultimately show ?thesis
        using r1 ok1 r2 ok2 False
        by (simp add: NvM_TryReadBlock_def Let_def bytes_u16_u16_bytes)
    qed
    then show "fst (NvM_TryReadBlock s off buf sz crc) = True"
      and "fst (snd (NvM_TryReadBlock s off buf sz crc)) = take (unat sz) d @ drop (unat sz) buf"
      using b1 by (metis fst_conv, metis fst_conv snd_conv)
  qed
qed

subsection \<open>Writing a slot\<close>

lemma nth_store_bytes:
  assumes "a + length bytes \<le> length st" "i < length st"
  shows "store_bytes st a bytes ! i = (if a \<le> i \<and> i < a + length bytes then bytes ! (i - a) else st ! i)"
  using assms by (auto simp: store_bytes_def nth_append)

lemma in_set_take_drop:
  "b \<in> set (take n (drop a st)) \<Longrightarrow> \<exists>i < n. a + i < length st \<and> b = st ! (a + i)"
  by (auto simp: in_set_conv_nth)

lemma write_slot_frame:
  assumes ok: "medium_ok s" and nf: "no_faults s"
    and w: "NvM_WriteBlockWithCrc s off d sz crc = (r, s')"
  shows "same_frame s s'" and "r = E_OK \<or> r = E_NOT_OK"
proof -
  obtain r1 s1 where e: "MemIf_Erase s off (ucast sz) = (r1, s1)" by (metis prod.exhaust)
  note c1 = MemIf_Erase_cases[OF ok e]
  have ok1: "medium_ok s1" and nf1: "no_faults s1"
    using c1(1) ok nf same_frame_medium_ok same_frame_no_faults by blast+
  obtain r2 s2 where w2: "MemIf_Write s1 off d (ucast sz) = (r2, s2)" by (metis prod.exhaust)
  note c2 = MemIf_Write_cases[OF nf1 ok1 unat_sz_le w2]
  have ok2: "medium_ok s2" and nf2: "no_faults s2"
    using c2(1) ok1 nf1 same_frame_medium_ok same_frame_no_faults by blast+
  obtain r3 s3 where w3: "MemIf_Write s2 (off + ucast sz)
       (memcpy (replicate 256 0xFF) (u16_bytes (Crc16_Calculate d (ucast sz))) 2) 256 = (r3, s3)"
    by (metis prod.exhaust)
  have "unat (256::u32) \<le> 2 ^ 31" by simp
  note c3 = MemIf_Write_cases[OF nf2 ok2 this w3]
  have f2: "same_frame s s2" using c1(1) c2(1) by (rule same_frame_trans)
  have f3: "same_frame s s3" using f2 c3(1) by (rule same_frame_trans)
  have "(s' = s1 \<or> s' = s2 \<or> s' = s3) \<and> (r = E_OK \<or> r = E_NOT_OK)"
    using w e w2 w3
    by (auto simp: NvM_WriteBlockWithCrc_def Let_def split: if_splits Std_ReturnType.splits)
  then show "same_frame s s'" "r = E_OK \<or> r = E_NOT_OK"
    using c1(1) f2 f3 by auto
qed

lemma write_slot_holds:
  assumes ok: "medium_ok s" and nf: "no_faults s" and len: "unat sz \<le> length d"
    and w: "NvM_WriteBlockWithCrc s off d sz crc = (E_OK, s')"
  shows "slot_holds s' off sz crc d"
proof -
  let ?n = "unat sz"
  let ?o = "unat off"
  obtain r1 s1 where e: "MemIf_Erase s off (ucast sz) = (r1, s1)" by (metis prod.exhaust)
  note c1 = MemIf_Erase_cases[OF ok e]
  have ok1: "medium_ok s1" and nf1: "no_faults s1"
    using c1(1) ok nf same_frame_medium_ok same_frame_no_faults by blast+
  obtain r2 s2 where w2: "MemIf_Write s1 off d (ucast sz) = (r2, s2)" by (metis prod.exhaust)
  note c2 = MemIf_Write_cases[OF nf1 ok1 unat_sz_le w2]
  have ok2: "medium_ok s2" and nf2: "no_faults s2"
    using c2(1) ok1 nf1 same_frame_medium_ok same_frame_no_faults by blast+
  have r1: "r1 = E_OK" and r2: "r2 = E_OK"
    using w e w2 by (auto simp: NvM_WriteBlockWithCrc_def Let_def split: if_splits Std_ReturnType.splits)
  let ?st1 = "virtual_storage (g_config s1)"
  let ?st2 = "virtual_storage (g_config s2)"
  have v1: "validate_address s1 off (ucast sz)" using c2(5) r2 by simp
  have b1: "?o + ?n \<le> length ?st1"
    using validate_address_nat[OF ok1 v1 unat_sz_le] by (simp add: unat_ucast_16_32)
  have st2: "?st2 = store_bytes ?st1 ?o (take ?n d)"
    using c2(6) r2 by (simp add: unat_ucast_16_32)
  have ltk: "length (take ?n d) = ?n" using len by simp
  have p2: "take ?n (drop ?o ?st2) = take ?n d"
    using read_store_bytes_same[of ?o "take ?n d" ?st1] b1 ltk st2 by simp
  have v2: "validate_address s2 off (ucast sz)"
    using v1 same_frame_validate[OF c2(1)] by simp
  show ?thesis
  proof (cases "crc = NVM_CRC_NONE")
    case True
    then have "s' = s2" using w e w2 r1 r2 by (simp add: NvM_WriteBlockWithCrc_def Let_def)
    then show ?thesis using True p2 v2 by (simp add: slot_holds_def)
  next
    case False
    let ?page = "memcpy (replicate 256 0xFF) (u16_bytes (Crc16_Calculate d (ucast sz))) 2"
    obtain r3 s3 where w3: "MemIf_Write s2 (off + ucast sz) ?page 256 = (r3, s3)"
      by (metis prod.exhaust)
    have "unat (256::u32) \<le> 2 ^ 31" by simp
    note c3 = MemIf_Write_cases[OF nf2 ok2 this w3]
    have r3: "r3 = E_OK" and s': "s' = s3"
      using w e w2 w3 r1 r2 False
      by (auto simp: NvM_WriteBlockWithCrc_def Let_def split: if_splits Std_ReturnType.splits)
    let ?st3 = "virtual_storage (g_config s3)"
    have co: "unat (off + ucast sz) = ?o + ?n" using slot_end_unat[OF ok2 v2] .
    have v3: "validate_address s2 (off + ucast sz) 256" using c3(5) r3 by simp
    have b3: "?o + ?n + 256 \<le> length ?st2"
      using validate_address_nat[OF ok2 v3] co by simp
    have lp: "length ?page = 256" by (simp add: memcpy_def u16_bytes_length)
    have st3: "?st3 = store_bytes ?st2 (?o + ?n) ?page"
      using c3(6) r3 co lp by simp
    have p3: "take ?n (drop ?o ?st3) = take ?n d"
      using read_store_bytes_other[of "?o + ?n" ?page ?st2 ?o ?n] b3 lp st3 p2 by simp
    have "take 256 (drop (?o + ?n) ?st3) = ?page"
      using read_store_bytes_same[of "?o + ?n" ?page ?st2] b3 lp st3 by simp
    then have "take 2 (take 256 (drop (?o + ?n) ?st3)) = take 2 ?page" by simp
    then have crcb: "take 2 (drop (?o + ?n) ?st3) = u16_bytes (Crc16_Calculate d (ucast sz))"
      by (simp add: memcpy_def u16_bytes_length)
    have f23: "same_frame s2 s3" using c3(1) .
    have ok3: "medium_ok s3" using f23 ok2 by (rule same_frame_medium_ok)
    have cap: "unat (capacity_bytes (g_config s3)) = length ?st2"
      using ok2 f23 by (simp add: medium_ok_def same_frame_def)
    have v4: "validate_address s3 (off + ucast sz) 2"
      using b3 co cap by (intro validate_address_of_nat[OF ok3]) simp_all
    have v5: "validate_address s3 off (ucast sz)"
      using v2 same_frame_validate[OF f23] by simp
    show ?thesis using s' False p3 crcb v4 v5 by (simp add: slot_holds_def)
  qed
qed

lemma MemIf_Write_succeeds:
  assumes "no_faults s" "validate_address s a len" "Eep_IsPageAligned s a"
    "len mod page_size (g_config s) = 0"
    "\<forall>b \<in> set (take (unat len) (drop (unat a) (virtual_storage (g_config s)))). b = 0xFF"
  shows "fst (MemIf_Write s a d len) = E_OK"
  using assms(2-) by (simp add: MemIf_Write_def Eep_Write_no_faults[OF assms(1)])

lemma MemIf_Erase_succeeds:
  assumes "g_initialized s" "validate_address s a (erase_block_size (g_config s))"
    "a mod erase_block_size (g_config s) = 0"
    "g_erase_counts s ! unat (a div erase_block_size (g_config s)) < endurance_cycles (g_config s)"
  shows "fst (MemIf_Erase s a len) = E_OK"
  using assms
  by (simp add: MemIf_Erase_def Eep_Erase_def Eep_IsBlockAligned_def address_to_block_def
        Let_def not_le)

lemma write_slot_succeeds:
  assumes ok: "medium_ok s" and nf: "no_faults s"
    and aligned: "off mod erase_block_size (g_config s) = 0"
    and inrange: "unat off + unat (erase_block_size (g_config s)) \<le> unat (capacity_bytes (g_config s))"
    and endurance: "g_erase_counts s ! unat (off div erase_block_size (g_config s))
                      < endurance_cycles (g_config s)"
    and page: "off mod page_size (g_config s) = 0" "ucast sz mod page_size (g_config s) = 0"
    and fits: "unat sz \<le> unat (erase_block_size (g_config s))"
    and crcpage: "crc \<noteq> NVM_CRC_NONE \<Longrightarrow>
         (off + ucast sz) mod 256 = 0 \<and> (off + ucast sz) mod page_size (g_config s) = 0 \<and>
         256 mod page_size (g_config s) = 0 \<and>
         unat sz + 256 \<le> unat (erase_block_size (g_config s))"
  shows "fst (NvM_WriteBlockWithCrc s off d sz crc) = E_OK"
proof -
  let ?n = "unat sz"
  let ?o = "unat off"
  let ?bs = "unat (erase_block_size (g_config s))"
  let ?st = "virtual_storage (g_config s)"
  have init: "g_initialized s" and bs0: "erase_block_size (g_config s) \<noteq> 0"
    and lst: "length ?st = unat (capacity_bytes (g_config s))"
    using ok by (simp_all add: medium_ok_def)
  have bspos: "0 < ?bs" using bs0 by (simp add: unat_gt_0)
  have olt: "?o < unat (capacity_bytes (g_config s))" using inrange bspos by simp
  have v0: "validate_address s off (erase_block_size (g_config s))"
    using olt inrange by (intro validate_address_of_nat[OF ok]) simp_all
  obtain r1 s1 where e: "MemIf_Erase s off (ucast sz) = (r1, s1)" by (metis prod.exhaust)
  have r1: "r1 = E_OK"
    using MemIf_Erase_succeeds[OF init v0 aligned endurance, of "ucast sz"] e by simp
  note c1 = MemIf_Erase_cases[OF ok e]
  have ok1: "medium_ok s1" and nf1: "no_faults s1"
    using c1(1) ok nf same_frame_medium_ok same_frame_no_faults by blast+
  let ?st1 = "virtual_storage (g_config s1)"
  have st1: "?st1 = store_bytes ?st ?o (replicate ?bs 0xFF)" using c1(6) r1 by simp
  have l1: "length ?st1 = length ?st" using c1(1) by (simp add: same_frame_def)
  have er1: "?st1 ! i = 0xFF" if "?o \<le> i" "i < ?o + ?bs" for i
    using that nth_store_bytes[of ?o "replicate ?bs 0xFF" ?st i] inrange lst st1 by simp
  have g1: "page_size (g_config s1) = page_size (g_config s)" "g_initialized s1"
    "capacity_bytes (g_config s1) = capacity_bytes (g_config s)"
    using c1(1) init by (simp_all add: same_frame_def)
  have v1: "validate_address s1 off (ucast sz)"
    using olt inrange fits g1 by (intro validate_address_of_nat[OF ok1]) (simp_all add: unat_ucast_16_32)
  have pa1: "Eep_IsPageAligned s1 off" using page(1) g1 by (simp add: Eep_IsPageAligned_def)
  have erased1: "\<forall>b \<in> set (take (unat (ucast sz :: u32)) (drop ?o ?st1)). b = 0xFF"
  proof
    fix b assume "b \<in> set (take (unat (ucast sz :: u32)) (drop ?o ?st1))"
    then obtain i where "i < ?n" "b = ?st1 ! (?o + i)"
      using in_set_take_drop[of b "?n" ?o ?st1] by (auto simp: unat_ucast_16_32)
    then show "b = 0xFF" using er1[of "?o + i"] fits by simp
  qed
  obtain r2 s2 where w2: "MemIf_Write s1 off d (ucast sz) = (r2, s2)" by (metis prod.exhaust)
  have r2: "r2 = E_OK"
    using MemIf_Write_succeeds[OF nf1 v1 pa1 _ erased1, of d] page(2) g1 w2 by simp
  show ?thesis
  proof (cases "crc = NVM_CRC_NONE")
    case True
    then show ?thesis using e r1 w2 r2 by (simp add: NvM_WriteBlockWithCrc_def Let_def)
  next
    case False
    note cp = crcpage[OF False]
    note c2 = MemIf_Write_cases[OF nf1 ok1 unat_sz_le w2]
    have ok2: "medium_ok s2" and nf2: "no_faults s2"
      using c2(1) ok1 nf1 same_frame_medium_ok same_frame_no_faults by blast+
    let ?st2 = "virtual_storage (g_config s2)"
    have st2: "?st2 = store_bytes ?st1 ?o (take ?n d)"
      using c2(6) r2 by (simp add: unat_ucast_16_32)
    have g2: "page_size (g_config s2) = page_size (g_config s)" "g_initialized s2"
      "capacity_bytes (g_config s2) = capacity_bytes (g_config s)"
      using c2(1) g1 by (simp_all add: same_frame_def)
    have co: "unat (off + ucast sz) = ?o + ?n" using slot_end_unat[OF ok1 v1] .
    have er2: "?st2 ! i = 0xFF" if "?o + ?n \<le> i" "i < ?o + ?bs" for i
    proof -
      have "?o + length (take ?n d) \<le> length ?st1" using inrange lst l1 fits by simp
      moreover have "i < length ?st1" using that inrange lst l1 by simp
      moreover have "\<not> i < ?o + length (take ?n d)" using that by simp
      ultimately have "?st2 ! i = ?st1 ! i"
        using nth_store_bytes[of ?o "take ?n d" ?st1 i] st2 by simp
      then show ?thesis using er1[of i] that by simp
    qed
    let ?page = "memcpy (replicate 256 0xFF) (u16_bytes (Crc16_Calculate d (ucast sz))) 2"
    have v3: "validate_address s2 (off + ucast sz) 256"
      using olt inrange cp g2 co by (intro validate_address_of_nat[OF ok2]) simp_all
    have pa2: "Eep_IsPageAligned s2 (off + ucast sz)"
      using cp g2 by (simp add: Eep_IsPageAligned_def)
    have erased2: "\<forall>b \<in> set (take (unat (256 :: u32)) (drop (unat (off + ucast sz)) ?st2)). b = 0xFF"
    proof
      fix b assume "b \<in> set (take (unat (256 :: u32)) (drop (unat (off + ucast sz)) ?st2))"
      then obtain i where "i < 256" "b = ?st2 ! (?o + ?n + i)"
        using in_set_take_drop[of b 256 "?o + ?n" ?st2] co by auto
      then show "b = 0xFF" using er2[of "?o + ?n + i"] cp by simp
    qed
    obtain r3 s3 where w3: "MemIf_Write s2 (off + ucast sz) ?page 256 = (r3, s3)"
      by (metis prod.exhaust)
    have r3: "r3 = E_OK"
      using MemIf_Write_succeeds[OF nf2 v3 pa2 _ erased2, of ?page] cp g2 w3 by simp
    show ?thesis using False e r1 w2 r2 w3 r3 cp by (simp add: NvM_WriteBlockWithCrc_def Let_def)
  qed
qed

subsection \<open>Facts about the example medium\<close>

lemma ex_medium_fields:
  "g_initialized ex_medium"
  "capacity_bytes (g_config ex_medium) = 4096"
  "page_size (g_config ex_medium) = 256"
  "erase_block_size (g_config ex_medium) = 1024"
  "endurance_cycles (g_config ex_medium) = 100000"
  "virtual_storage (g_config ex_medium) = replicate 4096 0xFF"
  "g_erase_counts ex_medium = replicate 4 0"
  "g_fault_configs ex_medium = replicate 16 zero_fault_config"
  by (simp_all add: ex_medium_def MemIf_Init_def Eep_Init_default_def default_config_def
        startup_medium_def Let_def)

lemma ex_medium_ok: "medium_ok ex_medium"
  by (simp add: medium_ok_def ex_medium_fields)

lemma ex_medium_no_faults: "no_faults ex_medium"
  by (simp add: no_faults_def ex_medium_fields zero_fault_config_def)

lemma ex_write_ok:
  "fst (NvM_WriteBlockWithCrc ex_medium 0 d 256 NVM_CRC16) = E_OK"
  by (rule write_slot_succeeds[OF ex_medium_ok ex_medium_no_faults])
     (simp_all add: ex_medium_fields)

subsection \<open>Round trip of a slot\<close>

text \<open>
  Claim C1. On a well-formed medium with no fault enabled, when
  \<open>NvM_WriteBlockWithCrc(offset, data, size, crc_kind)\<close> returns \<open>E_OK\<close>, a following
  \<open>NvM_TryReadBlock(offset, out, size, crc_kind)\<close> with the same kind returns true and the
  first \<open>size\<close> bytes of \<open>out\<close> are those of \<open>data\<close>. (The layout preconditions of the
  claim are what makes the write return \<open>E_OK\<close>: lemma \<open>write_slot_succeeds\<close>.)
\<close>

theorem slot_round_trip:
  assumes "medium_ok s" "no_faults s" "unat sz \<le> length d"
    and "NvM_WriteBlockWithCrc s off d sz crc = (E_OK, s')"
  shows "fst (NvM_TryReadBlock s' off buf sz crc) = True \<and>
         take (unat sz) (fst (snd (NvM_TryReadBlock s' off buf sz crc))) = take (unat sz) d"
proof -
  have f: "same_frame s s'" using write_slot_frame(1)[OF assms(1,2,4)] .
  have ok': "medium_ok s'" and nf': "no_faults s'"
    using f assms(1,2) same_frame_medium_ok same_frame_no_faults by blast+
  have h: "slot_holds s' off sz crc d" using write_slot_holds[OF assms] .
  show ?thesis using try_read_holds[OF nf' ok' h, of buf] assms(3) by simp
qed

theorem slot_round_trip_witness:
  "medium_ok ex_medium \<and> no_faults ex_medium \<and>
   fst (NvM_WriteBlockWithCrc ex_medium 0 (replicate 256 0xAA) 256 NVM_CRC16) = E_OK \<and>
   fst (NvM_TryReadBlock (snd (NvM_WriteBlockWithCrc ex_medium 0 (replicate 256 0xAA) 256 NVM_CRC16))
          0 (replicate 256 0) 256 NVM_CRC16) = True \<and>
   take 256 (fst (snd (NvM_TryReadBlock
          (snd (NvM_WriteBlockWithCrc ex_medium 0 (replicate 256 0xAA) 256 NVM_CRC16))
          0 (replicate 256 0) 256 NVM_CRC16))) = replicate 256 0xAA"
proof -
  let ?w = "NvM_WriteBlockWithCrc ex_medium 0 (replicate 256 0xAA) 256 NVM_CRC16"
  have w: "?w = (E_OK, snd ?w)"
    using ex_write_ok[of "replicate 256 0xAA"] by (metis prod.collapse)
  have l: "unat (256::u16) \<le> length (replicate 256 (0xAA::u8))" by simp
  show ?thesis
    using slot_round_trip[OF ex_medium_ok ex_medium_no_faults l w, of "replicate 256 0"]
      ex_medium_ok ex_medium_no_faults ex_write_ok
    by simp
qed

subsection \<open>Dataset writes\<close>

lemma write_slot_counts:
  assumes ok: "medium_ok s" and nf: "no_faults s"
    and w: "NvM_WriteBlockWithCrc s off d sz crc = (r, s')"
    and j: "j \<noteq> unat (off div erase_block_size (g_config s))"
  shows "g_erase_counts s' ! j = g_erase_counts s ! j"
proof -
  obtain r1 s1 where e: "MemIf_Erase s off (ucast sz) = (r1, s1)" by (metis prod.exhaust)
  note c1 = MemIf_Erase_cases[OF ok e]
  have ok1: "medium_ok s1" and nf1: "no_faults s1"
    using c1(1) ok nf same_frame_medium_ok same_frame_no_faults by blast+
  have e1: "g_erase_counts s1 ! j = g_erase_counts s ! j"
    using e j
    by (auto simp: MemIf_Erase_def Eep_Erase_def Let_def set_storage_def address_to_block_def
             split: if_splits)
  obtain r2 s2 where w2: "MemIf_Write s1 off d (ucast sz) = (r2, s2)" by (metis prod.exhaust)
  note c2 = MemIf_Write_cases[OF nf1 ok1 unat_sz_le w2]
  have ok2: "medium_ok s2" and nf2: "no_faults s2"
    using c2(1) ok1 nf1 same_frame_medium_ok same_frame_no_faults by blast+
  obtain r3 s3 where w3: "MemIf_Write s2 (off + ucast sz)
       (memcpy (replicate 256 0xFF) (u16_bytes (Crc16_Calculate d (ucast sz))) 2) 256 = (r3, s3)"
    by (metis prod.exhaust)
  have "unat (256::u32) \<le> 2 ^ 31" by simp
  note c3 = MemIf_Write_cases[OF nf2 ok2 this w3]
  have "s' = s1 \<or> s' = s2 \<or> s' = s3"
    using w e w2 w3
    by (auto simp: NvM_WriteBlockWithCrc_def Let_def split: if_splits Std_ReturnType.splits)
  then show ?thesis using e1 c2(2) c3(2) by auto
qed

lemma dataset_write_ok:
  assumes "fst (NvM_WriteBlockWithCrc s (dataset_write_target b) d (block_size b) (crc_type b)) = E_OK"
  shows "NvM_WriteDatasetBlock s b d =
           (E_OK, b\<lparr>active_dataset_index := of_nat (next_index b),
                     erase_count := erase_count b + 1, state := NVM_BLOCKSTATE_VALID\<rparr>,
            snd (NvM_WriteBlockWithCrc s (dataset_write_target b) d (block_size b) (crc_type b)))"
  using assms
  by (auto simp: NvM_WriteDatasetBlock_def dataset_write_target_def Let_def
           split: prod.splits Std_ReturnType.splits)

lemma dataset_write_not_ok:
  assumes "fst (NvM_WriteBlockWithCrc s (dataset_write_target b) d (block_size b) (crc_type b)) \<noteq> E_OK"
  shows "NvM_WriteDatasetBlock s b d =
           (E_NOT_OK, b,
            snd (NvM_WriteBlockWithCrc s (dataset_write_target b) d (block_size b) (crc_type b)))"
  using assms
  by (auto simp: NvM_WriteDatasetBlock_def dataset_write_target_def Let_def
           split: prod.splits Std_ReturnType.splits)

lemma ex_medium_worn_write_fails:
  "fst (NvM_WriteBlockWithCrc ex_medium_worn 1024 d sz crc) = E_NOT_OK"
  by (simp add: NvM_WriteBlockWithCrc_def MemIf_Erase_def Eep_Erase_def Eep_IsBlockAligned_def
        validate_address_def address_to_block_def ex_medium_worn_def ex_medium_fields Let_def)

lemma ex_dataset_block_target: "dataset_write_target ex_dataset_block = 1024"
  by (simp add: dataset_write_target_def dataset_slot_offset_def next_index_def
        ex_dataset_block_def zero_block_def EEPROM_BLOCK_SLOT_SIZE_def)

text \<open>
  Claim C7, as amended. When the slot write inside \<open>NvM_WriteDatasetBlock\<close> fails, the
  call returns \<open>E_NOT_OK\<close> and leaves the block as it was: the previous
  \<open>active_dataset_index\<close> is retained, and the state keeps its value (it is not set to
  Invalid).
\<close>

theorem dataset_write_failure_keeps_block:
  assumes "fst (NvM_WriteBlockWithCrc s (dataset_write_target block) d (block_size block)
                  (crc_type block)) \<noteq> E_OK"
  shows "fst (NvM_WriteDatasetBlock s block d) = E_NOT_OK \<and>
         fst (snd (NvM_WriteDatasetBlock s block d)) = block \<and>
         state (fst (snd (NvM_WriteDatasetBlock s block d))) = state block \<and>
         active_dataset_index (fst (snd (NvM_WriteDatasetBlock s block d)))
           = active_dataset_index block"
  using dataset_write_not_ok[OF assms] by simp

theorem dataset_write_failure_keeps_block_witness:
  "fst (NvM_WriteBlockWithCrc ex_medium_worn (dataset_write_target ex_dataset_block)
          (replicate 256 0xAA) (block_size ex_dataset_block) (crc_type ex_dataset_block)) = E_NOT_OK \<and>
   fst (NvM_WriteDatasetBlock ex_medium_worn ex_dataset_block (replicate 256 0xAA)) = E_NOT_OK \<and>
   fst (snd (NvM_WriteDatasetBlock ex_medium_worn ex_dataset_block (replicate 256 0xAA)))
     = ex_dataset_block"
proof -
  have a: "fst (NvM_WriteBlockWithCrc ex_medium_worn (dataset_write_target ex_dataset_block)
          (replicate 256 0xAA) (block_size ex_dataset_block) (crc_type ex_dataset_block)) = E_NOT_OK"
    by (simp add: ex_dataset_block_target ex_medium_worn_write_fails)
  then have b: "fst (NvM_WriteBlockWithCrc ex_medium_worn (dataset_write_target ex_dataset_block)
          (replicate 256 0xAA) (block_size ex_dataset_block) (crc_type ex_dataset_block)) \<noteq> E_OK"
    by simp
  show ?thesis
    using dataset_write_failure_keeps_block[OF b] a by simp
qed

text \<open>
  The claim as stated fails on the state: a block that is Valid and whose next slot lies
  in a worn-out erase block is still Valid after the failed write.
\<close>

theorem dataset_write_failure_counterexample:
  "fst (NvM_WriteBlockWithCrc ex_medium_worn (dataset_write_target ex_dataset_block)
          (replicate 256 0xAA) (block_size ex_dataset_block) (crc_type ex_dataset_block)) = E_NOT_OK \<and>
   fst (NvM_WriteDatasetBlock ex_medium_worn ex_dataset_block (replicate 256 0xAA)) = E_NOT_OK \<and>
   state (fst (snd (NvM_WriteDatasetBlock ex_medium_worn ex_dataset_block (replicate 256 0xAA))))
     = NVM_BLOCKSTATE_VALID \<and>
   state (fst (snd (NvM_WriteDatasetBlock ex_medium_worn ex_dataset_block (replicate 256 0xAA))))
     \<noteq> NVM_BLOCKSTATE_INVALID"
proof -
  have a: "fst (NvM_WriteBlockWithCrc ex_medium_worn (dataset_write_target ex_dataset_block)
          (replicate 256 0xAA) (block_size ex_dataset_block) (crc_type ex_dataset_block)) = E_NOT_OK"
    by (simp add: ex_dataset_block_target ex_medium_worn_write_fails)
  then have b: "fst (NvM_WriteBlockWithCrc ex_medium_worn (dataset_write_target ex_dataset_block)
          (replicate 256 0xAA) (block_size ex_dataset_block) (crc_type ex_dataset_block)) \<noteq> E_OK"
    by simp
  show ?thesis
    using dataset_write_not_ok[OF b] a by (simp add: ex_dataset_block_def)
qed

lemma next_index_unat:
  assumes "dataset_count b \<noteq> 0"
  shows "unat (of_nat (next_index b) :: u8) = next_index b"
    and "next_index b < unat (dataset_count b)"
proof -
  have n: "0 < unat (dataset_count b)" using assms by (simp add: unat_gt_0)
  then show lt: "next_index b < unat (dataset_count b)" by (simp add: next_index_def)
  have "unat (dataset_count b) < 2 ^ 8" using unsigned_less[of "dataset_count b", where ?'a=nat] by simp
  with lt have "next_index b < 2 ^ 8" by simp
  then show "unat (of_nat (next_index b) :: u8) = next_index b"
    by (simp add: unat_of_nat take_bit_nat_eq_self)
qed

lemma dataset_write_cases:
  "NvM_WriteDatasetBlock s b d = (r, b1, s1) \<Longrightarrow>
     (r = E_OK \<and> b1 = b\<lparr>active_dataset_index := of_nat (next_index b),
                           erase_count := erase_count b + 1, state := NVM_BLOCKSTATE_VALID\<rparr>)
     \<or> (r = E_NOT_OK \<and> b1 = b)"
  using dataset_write_ok[of s b d] dataset_write_not_ok[of s b d] by auto

lemma mod_step: "((i + 1) mod n + k) mod n = (i + Suc k) mod (n::nat)"
  by (metis add.assoc add.commute mod_add_right_eq plus_1_eq_Suc)

lemma ex_write_step:
  assumes f: "same_frame ex_medium s"
    and off: "off = 0 \<or> off = 1024 \<or> off = 2048 \<or> off = 3072"
    and e: "g_erase_counts s ! unat (off div 1024) < 100000"
  shows "fst (NvM_WriteBlockWithCrc s off d 256 NVM_CRC16) = E_OK"
    and "same_frame ex_medium (snd (NvM_WriteBlockWithCrc s off d 256 NVM_CRC16))"
    and "j \<noteq> unat (off div 1024) \<Longrightarrow>
           g_erase_counts (snd (NvM_WriteBlockWithCrc s off d 256 NVM_CRC16)) ! j = g_erase_counts s ! j"
proof -
  have ok: "medium_ok s" and nf: "no_faults s"
    using f ex_medium_ok ex_medium_no_faults same_frame_medium_ok same_frame_no_faults by blast+
  have g: "capacity_bytes (g_config s) = 4096" "page_size (g_config s) = 256"
    "erase_block_size (g_config s) = 1024" "endurance_cycles (g_config s) = 100000"
    using f by (simp_all add: same_frame_def ex_medium_fields)
  show "fst (NvM_WriteBlockWithCrc s off d 256 NVM_CRC16) = E_OK"
    using off e by (intro write_slot_succeeds[OF ok nf]) (auto simp: g)
  obtain r s' where w: "NvM_WriteBlockWithCrc s off d 256 NVM_CRC16 = (r, s')"
    by (metis prod.exhaust)
  show "same_frame ex_medium (snd (NvM_WriteBlockWithCrc s off d 256 NVM_CRC16))"
    using write_slot_frame(1)[OF ok nf w] f w same_frame_trans by auto
  show "g_erase_counts (snd (NvM_WriteBlockWithCrc s off d 256 NVM_CRC16)) ! j = g_erase_counts s ! j"
    if "j \<noteq> unat (off div 1024)"
    using write_slot_counts[OF ok nf w, of j] that w g by simp
qed

subsection \<open>Redundant blocks\<close>

lemma slot_holds_transfer:
  assumes f: "same_frame s s'" and i: "slot_intact s s' off"
    and fits: "unat sz + 2 \<le> EEPROM_BLOCK_SLOT_SIZE"
    and h: "slot_holds s off sz crc d"
  shows "slot_holds s' off sz crc d"
proof -
  let ?st = "virtual_storage (g_config s)"
  let ?st' = "virtual_storage (g_config s')"
  have l: "length ?st' = length ?st" using f by (simp add: same_frame_def)
  have eq: "take n (drop (unat off + k) ?st') = take n (drop (unat off + k) ?st)"
    if "k + n \<le> EEPROM_BLOCK_SLOT_SIZE" for k n
  proof (rule nth_equalityI)
    show "length (take n (drop (unat off + k) ?st')) = length (take n (drop (unat off + k) ?st))"
      using l by simp
  next
    fix j assume "j < length (take n (drop (unat off + k) ?st'))"
    then have j: "j < n" "unat off + k + j < length ?st" using l by auto
    have "?st' ! (unat off + (k + j)) = ?st ! (unat off + (k + j))"
      using i that j(1) by (simp add: slot_intact_def)
    then show "take n (drop (unat off + k) ?st') ! j = take n (drop (unat off + k) ?st) ! j"
      using j l by (simp add: add.assoc)
  qed
  have e1: "take (unat sz) (drop (unat off) ?st') = take (unat sz) (drop (unat off) ?st)"
    using eq[of 0 "unat sz"] fits by simp
  have e2: "take 2 (drop (unat off + unat sz) ?st') = take 2 (drop (unat off + unat sz) ?st)"
    using eq[of "unat sz" 2] fits by simp
  show ?thesis
    using h e1 e2 same_frame_validate[OF f] by (simp add: slot_holds_def)
qed

lemma slot_intact_same_storage:
  "virtual_storage (g_config s') = virtual_storage (g_config s) \<Longrightarrow> slot_intact s s' off"
  by (simp add: slot_intact_def)

lemma one_mod_u32:
  assumes "(p::u32) \<noteq> 0" "p \<noteq> 1" shows "1 mod p \<noteq> 0"
proof -
  have "unat p \<noteq> unat (0::u32)" "unat p \<noteq> unat (1::u32)"
    using assms by (simp_all add: word_unat_eq_iff)
  then have "1 < unat p" by simp
  then have "unat (1::u32) mod unat p = 1" by simp
  then have "unat (1 mod p) = 1" by (simp only: unat_mod)
  then show ?thesis by (metis unat_0 zero_neq_one)
qed

lemma version_write_noop:
  assumes nf: "no_faults s" and ok: "medium_ok s"
    and v: "vco = 0 \<or> page_size (g_config s) \<noteq> 1"
  shows "(if vco > 0 then snd (MemIf_Write s vco bytes 1) else s) = s"
proof (cases "vco = 0")
  case True
  then show ?thesis by simp
next
  case False
  then have p1: "page_size (g_config s) \<noteq> 1" using v by simp
  have p0: "page_size (g_config s) \<noteq> 0" using ok by (simp add: medium_ok_def)
  have "1 mod page_size (g_config s) \<noteq> 0" using one_mod_u32[OF p0 p1] .
  then show ?thesis
    by (simp add: MemIf_Write_def Eep_Write_no_faults[OF nf])
qed

lemma redundant_primary_frame:
  assumes ok: "medium_ok s" and nf: "no_faults s"
  shows "same_frame s (snd (redundant_primary_phase s b d))"
proof -
  obtain r s1 where w: "NvM_WriteBlockWithCrc s (eeprom_offset b) d (block_size b) (crc_type b) = (r, s1)"
    by (metis prod.exhaust)
  note f1 = write_slot_frame(1)[OF ok nf w]
  have nf1: "no_faults s1" using f1 nf by (rule same_frame_no_faults)
  obtain k vb s2 where t: "NvM_TryReadBlock s1 (eeprom_offset b) (replicate 256 0) (block_size b) (crc_type b) = (k, vb, s2)"
    by (metis prod_cases3)
  note f2 = try_read_frame(1)[OF nf1 t]
  have "snd (redundant_primary_phase s b d) = s1 \<or> snd (redundant_primary_phase s b d) = s2"
    using w t by (auto simp: redundant_primary_phase_def split: Std_ReturnType.splits)
  then show ?thesis using f1 f2 same_frame_trans by auto
qed

lemma redundant_write_ok_cases:
  assumes "NvM_WriteRedundantBlock s b d = (E_OK, b1, s1)"
  shows "fst (redundant_primary_phase s b d)"
    and "b1 = b\<lparr>active_version := active_version b + 1, erase_count := erase_count b + 1,
                 state := NVM_BLOCKSTATE_VALID\<rparr>"
    and "s1 = (let s3 = snd (redundant_backup_phase (snd (redundant_primary_phase s b d)) b d)
               in if version_control_offset b > 0
                  then snd (MemIf_Write s3 (version_control_offset b) [active_version b + 1] 1)
                  else s3)"
  using assms
  by (auto simp: NvM_WriteRedundantBlock_def Let_def split_def split: prod.splits bool.splits if_splits)

lemma crc_erased_page: "Crc16_Calculate (replicate 256 0xFF) 256 = 0x5B2F"
  by code_simp

lemma take_drop_replicate:
  assumes "a + n \<le> length st" "\<forall>i < n. st ! (a + i) = x"
  shows "take n (drop a st) = replicate n x"
  using assms by (intro nth_equalityI) simp_all

lemma write_slot_outside:
  assumes ok: "medium_ok s" and nf: "no_faults s"
    and w: "NvM_WriteBlockWithCrc s off d sz crc = (r, s')"
    and i: "i < unat off \<or>
            (unat off + unat (erase_block_size (g_config s)) \<le> i \<and> unat off + unat sz + 256 \<le> i)"
    and il: "i < length (virtual_storage (g_config s))"
  shows "virtual_storage (g_config s') ! i = virtual_storage (g_config s) ! i"
proof -
  let ?n = "unat sz" and ?o = "unat off"
  obtain r1 s1 where e: "MemIf_Erase s off (ucast sz) = (r1, s1)" by (metis prod.exhaust)
  note c1 = MemIf_Erase_cases[OF ok e]
  have ok1: "medium_ok s1" and nf1: "no_faults s1"
    using c1(1) ok nf same_frame_medium_ok same_frame_no_faults by blast+
  have bsl: "unat (erase_block_size (g_config s)) \<le> 2 ^ 31" using ok by (simp add: medium_ok_def)
  have l1: "length (virtual_storage (g_config s1)) = length (virtual_storage (g_config s))"
    using c1(1) by (simp add: same_frame_def)
  have e1: "virtual_storage (g_config s1) ! i = virtual_storage (g_config s) ! i"
  proof (cases "r1 = E_OK")
    case True
    have "?o + unat (erase_block_size (g_config s)) \<le> length (virtual_storage (g_config s))"
      using validate_address_nat[OF ok c1(5)[OF True] bsl] .
    then have bb: "?o + length (replicate (unat (erase_block_size (g_config s))) (0xFF::u8))
                     \<le> length (virtual_storage (g_config s))" by simp
    have ni: "\<not> (?o \<le> i \<and>
                 i < ?o + length (replicate (unat (erase_block_size (g_config s))) (0xFF::u8)))"
      using i by auto
    have "store_bytes (virtual_storage (g_config s)) ?o
            (replicate (unat (erase_block_size (g_config s))) 0xFF) ! i
            = virtual_storage (g_config s) ! i"
      unfolding nth_store_bytes[OF bb il] using ni by (simp only: if_False)
    then show ?thesis
      using c1(6)[OF True] by simp
  next
    case False
    then show ?thesis using c1(4) by simp
  qed
  obtain r2 s2 where w2: "MemIf_Write s1 off d (ucast sz) = (r2, s2)" by (metis prod.exhaust)
  note c2 = MemIf_Write_cases[OF nf1 ok1 unat_sz_le w2]
  have ok2: "medium_ok s2" and nf2: "no_faults s2"
    using c2(1) ok1 nf1 same_frame_medium_ok same_frame_no_faults by blast+
  have l2: "length (virtual_storage (g_config s2)) = length (virtual_storage (g_config s1))"
    using c2(1) by (simp add: same_frame_def)
  have e2: "virtual_storage (g_config s2) ! i = virtual_storage (g_config s1) ! i"
  proof (cases "r2 = E_OK")
    case True
    have b: "?o + ?n \<le> length (virtual_storage (g_config s1))"
      using validate_address_nat[OF ok1 c2(5)[OF True] unat_sz_le] by (simp add: unat_ucast_16_32)
    then have bb: "?o + length (take ?n d) \<le> length (virtual_storage (g_config s1))" by simp
    have ii: "i < length (virtual_storage (g_config s1))" using il l1 by simp
    have ni: "\<not> (?o \<le> i \<and> i < ?o + length (take ?n d))" using i by auto
    have "store_bytes (virtual_storage (g_config s1)) ?o (take ?n d) ! i
            = virtual_storage (g_config s1) ! i"
      unfolding nth_store_bytes[OF bb ii] using ni by (simp only: if_False)
    then show ?thesis
      using c2(6)[OF True] by (simp add: unat_ucast_16_32)
  next
    case False
    then show ?thesis using c2(4) by simp
  qed
  let ?page = "memcpy (replicate 256 0xFF) (u16_bytes (Crc16_Calculate d (ucast sz))) 2"
  obtain r3 s3 where w3: "MemIf_Write s2 (off + ucast sz) ?page 256 = (r3, s3)"
    by (metis prod.exhaust)
  have "unat (256::u32) \<le> 2 ^ 31" by simp
  note c3 = MemIf_Write_cases[OF nf2 ok2 this w3]
  have e3: "virtual_storage (g_config s3) ! i = virtual_storage (g_config s2) ! i"
    if "r2 = E_OK"
  proof (cases "r3 = E_OK")
    case True
    have v2: "validate_address s2 off (ucast sz)"
      using c2(5)[OF that] same_frame_validate[OF c2(1)] by simp
    have co: "unat (off + ucast sz) = ?o + ?n" using slot_end_unat[OF ok2 v2] .
    have b: "?o + ?n + 256 \<le> length (virtual_storage (g_config s2))"
      using validate_address_nat[OF ok2 c3(5)[OF True]] co by simp
    have lp: "length ?page = 256" by (simp add: memcpy_def u16_bytes_length)
    have bb: "?o + ?n + length ?page \<le> length (virtual_storage (g_config s2))"
      using b lp by simp
    have ii: "i < length (virtual_storage (g_config s2))" using il l1 l2 by simp
    have ni: "\<not> (?o + ?n \<le> i \<and> i < ?o + ?n + length ?page)" using i lp by auto
    have "store_bytes (virtual_storage (g_config s2)) (?o + ?n) ?page ! i
            = virtual_storage (g_config s2) ! i"
      unfolding nth_store_bytes[OF bb ii] using ni by (simp only: if_False)
    moreover have "take (unat (256::u32)) ?page = ?page" using lp by simp
    ultimately show ?thesis
      using c3(6)[OF True] co by simp
  next
    case False
    then show ?thesis using c3(4) by simp
  qed
  have "s' = s1 \<or> s' = s2 \<or> (s' = s3 \<and> r2 = E_OK)"
    using w e w2 w3
    by (auto simp: NvM_WriteBlockWithCrc_def Let_def split: if_splits Std_ReturnType.splits)
  then show ?thesis using e1 e2 e3 by auto
qed

lemma try_read_mismatch:
  assumes nf: "no_faults s" and ok: "medium_ok s"
    and v: "validate_address s off (ucast sz)" "validate_address s (off + ucast sz) 2"
    and c: "crc \<noteq> NVM_CRC_NONE"
    and m: "bytes_u16 (take 2 (drop (unat (off + ucast sz)) (virtual_storage (g_config s))))
              \<noteq> Crc16_Calculate (take (unat sz) (drop (unat off) (virtual_storage (g_config s)))) (ucast sz)"
  shows "\<not> fst (NvM_TryReadBlock s off buf sz crc)"
    and "fst (snd (NvM_TryReadBlock s off buf sz crc))
           = take (unat sz) (drop (unat off) (virtual_storage (g_config s))) @ drop (unat sz) buf"
proof -
  let ?st = "virtual_storage (g_config s)"
  obtain r1 b1 s1 where r1: "MemIf_Read s off buf (ucast sz) = (r1, b1, s1)"
    by (metis prod_cases3)
  note c1 = MemIf_Read_cases[OF nf r1]
  have ok1: "r1 = E_OK" using c1(4) v(1) by simp
  have b1: "b1 = take (unat sz) (drop (unat off) ?st) @ drop (unat sz) buf"
    using c1(5)[OF ok1] by (simp add: memcpy_def unat_ucast_16_32)
  have nf1: "no_faults s1" using c1(1) nf by (rule same_frame_no_faults)
  obtain r2 b2 s2 where r2: "MemIf_Read s1 (off + ucast sz) (u16_bytes 0) 2 = (r2, b2, s2)"
    by (metis prod_cases3)
  note c2 = MemIf_Read_cases[OF nf1 r2]
  have ok2: "r2 = E_OK" using c2(4) v(2) same_frame_validate[OF c1(1)] by simp
  have b2: "b2 = take 2 (drop (unat (off + ucast sz)) ?st)"
    using c2(5)[OF ok2] c1(2) by (simp add: memcpy_def u16_bytes_length)
  have "unat off + unat sz \<le> length ?st"
    using validate_address_nat[OF ok v(1) unat_sz_le] by (simp add: unat_ucast_16_32)
  then have "Crc16_Calculate b1 (ucast sz)
          = Crc16_Calculate (take (unat sz) (drop (unat off) ?st)) (ucast sz)"
    by (intro Crc16_Calculate_take) (simp add: b1 unat_ucast_16_32)
  then have "NvM_TryReadBlock s off buf sz crc = (False, b1, s2)"
    using r1 ok1 r2 ok2 c m b2 by (simp add: NvM_TryReadBlock_def Let_def)
  then show "\<not> fst (NvM_TryReadBlock s off buf sz crc)"
    and "fst (snd (NvM_TryReadBlock s off buf sz crc))
           = take (unat sz) (drop (unat off) (virtual_storage (g_config s))) @ drop (unat sz) buf"
    using b1 by simp_all
qed

lemma ex_block_fields:
  "eeprom_offset ex_redundant_block = 0" "redundant_eeprom_offset ex_redundant_block = 1024"
  "block_size ex_redundant_block = 256" "crc_type ex_redundant_block = NVM_CRC16"
  "version_control_offset ex_redundant_block = 0" "rom_block_ptr ex_redundant_block = None"
  by (simp_all add: ex_redundant_block_def zero_block_def)

lemma ex_frame_fields:
  assumes "same_frame ex_medium s"
  shows "medium_ok s" "no_faults s" "capacity_bytes (g_config s) = 4096"
    "page_size (g_config s) = 256" "erase_block_size (g_config s) = 1024"
    "endurance_cycles (g_config s) = 100000" "length (virtual_storage (g_config s)) = 4096"
    "g_initialized s"
proof -
  show "medium_ok s" using assms ex_medium_ok by (rule same_frame_medium_ok)
  show "no_faults s" using assms ex_medium_no_faults by (rule same_frame_no_faults)
  show "capacity_bytes (g_config s) = 4096"
    "page_size (g_config s) = 256" "erase_block_size (g_config s) = 1024"
    "endurance_cycles (g_config s) = 100000" "length (virtual_storage (g_config s)) = 4096"
    "g_initialized s"
    using assms by (simp_all add: same_frame_def ex_medium_fields)
qed

lemma ex_validate:
  assumes "same_frame ex_medium s" "unat a + unat n \<le> 4096" "unat a < 4096"
  shows "validate_address s a n"
  using assms ex_frame_fields[OF assms(1)]
  by (intro validate_address_of_nat) simp_all

text \<open>The first two steps of the redundant write on a medium of the example geometry.\<close>

lemma ex_primary_phase:
  assumes f: "same_frame ex_medium s" and e: "g_erase_counts s ! 0 < 100000"
  shows "fst (redundant_primary_phase s ex_redundant_block ex_payload)"
    and "same_frame ex_medium (snd (redundant_primary_phase s ex_redundant_block ex_payload))"
    and "g_erase_counts (snd (redundant_primary_phase s ex_redundant_block ex_payload)) ! 1
           = g_erase_counts s ! 1"
    and "1024 \<le> i \<Longrightarrow> i < 4096 \<Longrightarrow>
         virtual_storage (g_config (snd (redundant_primary_phase s ex_redundant_block ex_payload))) ! i
           = virtual_storage (g_config s) ! i"
proof -
  note g = ex_frame_fields[OF f]
  obtain r s1 where w: "NvM_WriteBlockWithCrc s 0 ex_payload 256 NVM_CRC16 = (r, s1)"
    by (metis prod.exhaust)
  have r: "r = E_OK" using ex_write_step(1)[OF f, where off=0 and d=ex_payload] e w by simp
  have f1: "same_frame ex_medium s1"
    using ex_write_step(2)[OF f, where off=0 and d=ex_payload] e w by simp
  note g1 = ex_frame_fields[OF f1]
  have c1: "g_erase_counts s1 ! 1 = g_erase_counts s ! 1"
    using ex_write_step(3)[OF f, where off=0 and d=ex_payload and j=1] e w by simp
  have l: "unat (256::u16) \<le> length ex_payload" by (simp add: ex_payload_def)
  have h: "slot_holds s1 0 256 NVM_CRC16 ex_payload"
    using write_slot_holds[OF g(1,2) l] w r by simp
  obtain k vb s2 where t: "NvM_TryReadBlock s1 0 (replicate 256 0) 256 NVM_CRC16 = (k, vb, s2)"
    by (metis prod_cases3)
  have k: "k" using try_read_holds(1)[OF g1(2,1) h, of "replicate 256 0"] t by simp
  note tf = try_read_frame[OF g1(2) t]
  have ph: "redundant_primary_phase s ex_redundant_block ex_payload = (True, s2)"
    using w r t k by (simp add: redundant_primary_phase_def ex_block_fields)
  show "fst (redundant_primary_phase s ex_redundant_block ex_payload)" using ph by simp
  show "same_frame ex_medium (snd (redundant_primary_phase s ex_redundant_block ex_payload))"
    using ph f1 tf(1) same_frame_trans by auto
  show "g_erase_counts (snd (redundant_primary_phase s ex_redundant_block ex_payload)) ! 1
           = g_erase_counts s ! 1"
    using ph tf(3) c1 by simp
  show "virtual_storage (g_config (snd (redundant_primary_phase s ex_redundant_block ex_payload))) ! i
           = virtual_storage (g_config s) ! i" if "1024 \<le> i" "i < 4096"
    using write_slot_outside[OF g(1,2) w, of i] that g ph tf(2) by simp
qed

lemma redundant_write_primary_ok:
  "fst (redundant_primary_phase s b d) \<Longrightarrow> fst (NvM_WriteRedundantBlock s b d) = E_OK"
  by (cases "redundant_primary_phase s b d")
     (simp add: NvM_WriteRedundantBlock_def Let_def split_def)

lemma redundant_write_frame:
  assumes ok: "medium_ok s" and nf: "no_faults s"
    and ver: "version_control_offset b = 0 \<or> page_size (g_config s) \<noteq> 1"
  shows "same_frame s (snd (snd (NvM_WriteRedundantBlock s b d)))"
    and "fst (redundant_primary_phase s b d) \<Longrightarrow>
           snd (snd (NvM_WriteRedundantBlock s b d))
             = snd (redundant_backup_phase (snd (redundant_primary_phase s b d)) b d)"
proof -
  let ?sp = "snd (redundant_primary_phase s b d)"
  have fp: "same_frame s ?sp" using redundant_primary_frame[OF ok nf] .
  have okp: "medium_ok ?sp" and nfp: "no_faults ?sp"
    using fp ok nf same_frame_medium_ok same_frame_no_faults by blast+
  obtain r3 s3 where bk: "redundant_backup_phase ?sp b d = (r3, s3)" by (metis prod.exhaust)
  then have wb: "NvM_WriteBlockWithCrc ?sp (redundant_eeprom_offset b) d (block_size b) (crc_type b)
              = (r3, s3)"
    by (simp add: redundant_backup_phase_def)
  have f3: "same_frame ?sp s3" using write_slot_frame(1)[OF okp nfp wb] .
  have fs3: "same_frame s s3" using fp f3 by (rule same_frame_trans)
  have ok3: "medium_ok s3" and nf3: "no_faults s3"
    using fs3 ok nf same_frame_medium_ok same_frame_no_faults by blast+
  have ver3: "version_control_offset b = 0 \<or> page_size (g_config s3) \<noteq> 1"
    using ver fs3 by (simp add: same_frame_def)
  have v: "snd (MemIf_Write s3 (version_control_offset b) bytes 1) = s3"
    if "0 < version_control_offset b" for bytes
    using version_write_noop[OF nf3 ok3 ver3, of bytes] that by simp
  have t: "snd (snd (NvM_WriteRedundantBlock s b d)) = s3" if "fst (redundant_primary_phase s b d)"
    using that bk v
    by (cases "redundant_primary_phase s b d")
       (simp add: NvM_WriteRedundantBlock_def Let_def split_def)
  have e: "snd (snd (NvM_WriteRedundantBlock s b d)) = ?sp" if "\<not> fst (redundant_primary_phase s b d)"
    using that
    by (cases "redundant_primary_phase s b d")
       (simp add: NvM_WriteRedundantBlock_def Let_def split_def)
  show "same_frame s (snd (snd (NvM_WriteRedundantBlock s b d)))"
    using t e fp fs3 by (cases "fst (redundant_primary_phase s b d)") simp_all
  show "snd (snd (NvM_WriteRedundantBlock s b d))
             = snd (redundant_backup_phase (snd (redundant_primary_phase s b d)) b d)"
    if "fst (redundant_primary_phase s b d)"
    using t[OF that] bk by simp
qed

lemma overwrite_at_frame:
  "a + length bytes \<le> length (virtual_storage (g_config s)) \<Longrightarrow> same_frame s (overwrite_at s a bytes)"
  by (simp add: same_frame_def overwrite_at_def set_storage_def length_store_bytes)

lemma overwrite_at_nth:
  assumes "a + length bytes \<le> length (virtual_storage (g_config s))"
    "i < length (virtual_storage (g_config s))"
  shows "virtual_storage (g_config (overwrite_at s a bytes)) ! i
           = (if a \<le> i \<and> i < a + length bytes then bytes ! (i - a)
              else virtual_storage (g_config s) ! i)"
  using nth_store_bytes[OF assms] by (simp add: overwrite_at_def set_storage_def)

lemma ex_corruption_length: "length ex_corruption = 258"
  by (simp add: ex_corruption_def)

lemma ex_corrupted_primary:
  assumes f: "same_frame ex_medium s1"
  shows "same_frame s1 (overwrite_at s1 0 ex_corruption)"
    and "slot_intact s1 (overwrite_at s1 0 ex_corruption) 1024"
    and "\<not> fst (NvM_TryReadBlock (overwrite_at s1 0 ex_corruption) 0 buf 256 NVM_CRC16)"
    and "258 \<le> i \<Longrightarrow> i < 4096 \<Longrightarrow>
           virtual_storage (g_config (overwrite_at s1 0 ex_corruption)) ! i
             = virtual_storage (g_config s1) ! i"
proof -
  note g = ex_frame_fields[OF f]
  let ?s2 = "overwrite_at s1 0 ex_corruption"
  have b: "0 + length ex_corruption \<le> length (virtual_storage (g_config s1))"
    using g by (simp add: ex_corruption_length)
  show f2: "same_frame s1 ?s2" using overwrite_at_frame[OF b] .
  have f02: "same_frame ex_medium ?s2" using f f2 by (rule same_frame_trans)
  note g2 = ex_frame_fields[OF f02]
  show out: "virtual_storage (g_config ?s2) ! i = virtual_storage (g_config s1) ! i"
    if "258 \<le> i" "i < 4096" for i
    using overwrite_at_nth[OF b, of i] that g by (simp add: ex_corruption_length)
  show "slot_intact s1 ?s2 1024"
    using out by (simp add: slot_intact_def EEPROM_BLOCK_SLOT_SIZE_def)
  have st: "virtual_storage (g_config ?s2)
              = replicate 256 0xFF @ [0, 0] @ drop 258 (virtual_storage (g_config s1))"
    by (simp add: overwrite_at_def set_storage_def store_bytes_def ex_corruption_def)
  have d: "take 256 (virtual_storage (g_config ?s2)) = replicate 256 0xFF"
    and c: "take 2 (drop 256 (virtual_storage (g_config ?s2))) = [0, 0]"
    by (simp_all add: st)
  have v1: "validate_address ?s2 0 (ucast (256::u16))"
    and v2: "validate_address ?s2 (0 + ucast (256::u16)) 2"
    by (rule ex_validate[OF f02]; simp)+
  have m: "bytes_u16 (take 2 (drop (unat ((0::u32) + ucast (256::u16))) (virtual_storage (g_config ?s2))))
              \<noteq> Crc16_Calculate (take (unat (256::u16)) (drop (unat (0::u32)) (virtual_storage (g_config ?s2))))
                    (ucast (256::u16))"
    by (simp add: c d crc_erased_page bytes_u16_def)
  show "\<not> fst (NvM_TryReadBlock ?s2 0 buf 256 NVM_CRC16)"
    by (rule try_read_mismatch(1)[OF g2(2,1) v1 v2 _ m]) simp
qed

lemma ex_fresh_written:
  shows "fst ex_redundant_written = E_OK"
    and "backup_written ex_medium ex_redundant_block ex_payload"
    and "same_frame ex_medium (snd (snd ex_redundant_written))"
proof -
  note p = ex_primary_phase[OF same_frame_refl, simplified ex_medium_fields, simplified]
  show "fst ex_redundant_written = E_OK"
    using redundant_write_primary_ok[OF p(1)] by (simp add: ex_redundant_written_def)
  have "fst (NvM_WriteBlockWithCrc (snd (redundant_primary_phase ex_medium ex_redundant_block ex_payload))
               1024 ex_payload 256 NVM_CRC16) = E_OK"
    using p(3) by (intro ex_write_step(1)[OF p(2)]) simp_all
  then show "backup_written ex_medium ex_redundant_block ex_payload"
    by (simp add: backup_written_def redundant_backup_phase_def ex_block_fields)
  show "same_frame ex_medium (snd (snd ex_redundant_written))"
    unfolding ex_redundant_written_def
    by (rule redundant_write_frame(1)[OF ex_medium_ok ex_medium_no_faults])
       (simp add: ex_block_fields)
qed

lemma ex_worn_frame: "same_frame ex_medium ex_medium_worn"
  by (simp add: same_frame_def ex_medium_worn_def ex_medium_fields)

lemma ex_worn_fields:
  "g_erase_counts ex_medium_worn ! 0 = 0" "g_erase_counts ex_medium_worn ! 1 = 100000"
  "virtual_storage (g_config ex_medium_worn) = replicate 4096 0xFF"
  by (simp_all add: ex_medium_worn_def ex_medium_fields)

lemma ex_worn_backup_fails:
  assumes f: "same_frame ex_medium s" and e: "g_erase_counts s ! 1 \<ge> 100000"
  shows "NvM_WriteBlockWithCrc s 1024 d sz crc = (E_NOT_OK, s)"
  using e ex_frame_fields[OF f]
  by (simp add: NvM_WriteBlockWithCrc_def MemIf_Erase_def Eep_Erase_def Eep_IsBlockAligned_def
        validate_address_def address_to_block_def Let_def)

lemma ex_worn_written_facts:
  shows "fst ex_worn_written = E_OK"
    and "\<not> backup_written ex_medium_worn ex_redundant_block ex_payload"
    and "same_frame ex_medium (snd (snd ex_worn_written))"
    and "1024 \<le> i \<Longrightarrow> i < 4096 \<Longrightarrow>
           virtual_storage (g_config (snd (snd ex_worn_written))) ! i = 0xFF"
proof -
  let ?sp = "snd (redundant_primary_phase ex_medium_worn ex_redundant_block ex_payload)"
  have e0: "g_erase_counts ex_medium_worn ! 0 < 100000" by (simp add: ex_worn_fields)
  note p = ex_primary_phase[OF ex_worn_frame e0]
  have e1: "g_erase_counts ?sp ! 1 \<ge> 100000" using p(3) ex_worn_fields(2) by simp
  note bf = ex_worn_backup_fails[OF p(2) e1]
  have ok: "medium_ok ex_medium_worn" and nf: "no_faults ex_medium_worn"
    using ex_frame_fields[OF ex_worn_frame] by simp_all
  have ver: "version_control_offset ex_redundant_block = 0 \<or> page_size (g_config ex_medium_worn) \<noteq> 1"
    by (simp add: ex_block_fields)
  show "fst ex_worn_written = E_OK"
    using redundant_write_primary_ok[OF p(1)] by (simp add: ex_worn_written_def)
  show "\<not> backup_written ex_medium_worn ex_redundant_block ex_payload"
    by (simp add: backup_written_def redundant_backup_phase_def ex_block_fields bf)
  have s1: "snd (snd ex_worn_written) = ?sp"
    using redundant_write_frame(2)[OF ok nf ver p(1)]
    by (simp add: ex_worn_written_def redundant_backup_phase_def ex_block_fields bf)
  show "same_frame ex_medium (snd (snd ex_worn_written))" using s1 p(2) by simp
  show "virtual_storage (g_config (snd (snd ex_worn_written))) ! i = 0xFF"
    if "1024 \<le> i" "i < 4096"
    using p(4)[OF that] s1 that by (simp add: ex_worn_fields)
qed

lemma redundant_written_block:
  "fst (snd (NvM_WriteRedundantBlock s b d)) = b \<or>
   fst (snd (NvM_WriteRedundantBlock s b d))
     = b\<lparr>active_version := active_version b + 1, erase_count := erase_count b + 1,
          state := NVM_BLOCKSTATE_VALID\<rparr>"
proof (cases "redundant_primary_phase s b d")
  case (Pair a sp)
  then show ?thesis
    by (cases a) (simp_all add: NvM_WriteRedundantBlock_def Let_def split_def)
qed

text \<open>
  Claim C2 (redundant recovery). On a well-formed driver state with no fault enabled, let
  \<^verbatim>\<open>NvM_WriteRedundantBlock\<close> return \<^verbatim>\<open>E_OK\<close> for a block whose payload and
  2-byte CRC fit the slot, and let the backup write of that call have succeeded as well (the
  function returns \<^verbatim>\<open>E_OK\<close> also when only the primary copy was written). If afterwards
  the medium is changed so that the backup slot keeps every byte and the primary read fails,
  \<^verbatim>\<open>NvM_ReadRedundantBlock\<close> returns \<^verbatim>\<open>E_OK\<close>, sets the state to
  \<^verbatim>\<open>NVM_BLOCKSTATE_RECOVERED\<close> and delivers the written payload over the first
  \<^verbatim>\<open>block_size\<close> bytes. The version byte written after the copies must not disturb
  them: either no version offset is configured or the page size is not 1 (the 1-byte version
  write is then refused by the driver).
\<close>

theorem redundant_recovery:
  assumes ok: "medium_ok s" and nf: "no_faults s"
    and len: "unat (block_size b) \<le> length d"
    and fits: "unat (block_size b) + 2 \<le> EEPROM_BLOCK_SLOT_SIZE"
    and ver: "version_control_offset b = 0 \<or> page_size (g_config s) \<noteq> 1"
    and w: "NvM_WriteRedundantBlock s b d = (E_OK, b1, s1)"
    and bw: "backup_written s b d"
    and f: "same_frame s1 s2"
    and intact: "slot_intact s1 s2 (redundant_eeprom_offset b)"
    and pf: "\<not> fst (NvM_TryReadBlock s2 (eeprom_offset b) buf (block_size b) (crc_type b))"
  shows "fst (NvM_ReadRedundantBlock s2 b1 buf) = E_OK \<and>
         state (fst (snd (NvM_ReadRedundantBlock s2 b1 buf))) = NVM_BLOCKSTATE_RECOVERED \<and>
         take (unat (block_size b)) (fst (snd (snd (NvM_ReadRedundantBlock s2 b1 buf))))
           = take (unat (block_size b)) d"
proof -
  let ?sp = "snd (redundant_primary_phase s b d)"
  have fp: "same_frame s ?sp" using redundant_primary_frame[OF ok nf] .
  have okp: "medium_ok ?sp" and nfp: "no_faults ?sp"
    using fp ok nf same_frame_medium_ok same_frame_no_faults by blast+
  obtain r3 s3 where bk: "redundant_backup_phase ?sp b d = (r3, s3)" by (metis prod.exhaust)
  have r3: "r3 = E_OK" using bw bk by (simp add: backup_written_def)
  have wb: "NvM_WriteBlockWithCrc ?sp (redundant_eeprom_offset b) d (block_size b) (crc_type b)
              = (E_OK, s3)"
    using bk r3 by (simp add: redundant_backup_phase_def)
  have h3: "slot_holds s3 (redundant_eeprom_offset b) (block_size b) (crc_type b) d"
    using write_slot_holds[OF okp nfp len wb] .
  have f3: "same_frame ?sp s3" using write_slot_frame(1)[OF okp nfp wb] .
  have fs3: "same_frame s s3" using fp f3 by (rule same_frame_trans)
  have ok3: "medium_ok s3" and nf3: "no_faults s3"
    using fs3 ok nf same_frame_medium_ok same_frame_no_faults by blast+
  have ver3: "version_control_offset b = 0 \<or> page_size (g_config s3) \<noteq> 1"
    using ver fs3 by (simp add: same_frame_def)
  note c = redundant_write_ok_cases[OF w]
  have s1: "s1 = s3"
    using c(3) bk version_write_noop[OF nf3 ok3 ver3] by (simp add: Let_def)
  have b1: "eeprom_offset b1 = eeprom_offset b" "redundant_eeprom_offset b1 = redundant_eeprom_offset b"
    "block_size b1 = block_size b" "crc_type b1 = crc_type b"
    using c(2) by simp_all
  have ok2: "medium_ok s2" and nf2: "no_faults s2"
    using f s1 ok3 nf3 same_frame_medium_ok same_frame_no_faults by blast+
  have h2: "slot_holds s2 (redundant_eeprom_offset b) (block_size b) (crc_type b) d"
    using slot_holds_transfer[OF f intact fits] h3 s1 by simp
  obtain k buf1 s2a where t1: "NvM_TryReadBlock s2 (eeprom_offset b) buf (block_size b) (crc_type b)
                                 = (k, buf1, s2a)"
    by (metis prod_cases3)
  have k: "\<not> k" using pf t1 by simp
  note tf = try_read_frame[OF nf2 t1]
  have ok2a: "medium_ok s2a" and nf2a: "no_faults s2a"
    using tf(1) ok2 nf2 same_frame_medium_ok same_frame_no_faults by blast+
  have h2a: "slot_holds s2a (redundant_eeprom_offset b) (block_size b) (crc_type b) d"
    using slot_holds_transfer[OF tf(1) slot_intact_same_storage[OF tf(2)] fits h2] .
  note rd = try_read_holds[OF nf2a ok2a h2a, of buf1]
  obtain k2 buf2 s2b where t2: "NvM_TryReadBlock s2a (redundant_eeprom_offset b) buf1
                                  (block_size b) (crc_type b) = (k2, buf2, s2b)"
    by (metis prod_cases3)
  have k2: "k2" and buf2: "buf2 = take (unat (block_size b)) d @ drop (unat (block_size b)) buf1"
    using rd t2 by simp_all
  have "NvM_ReadRedundantBlock s2 b1 buf
          = (E_OK, b1\<lparr>state := NVM_BLOCKSTATE_RECOVERED\<rparr>, buf2, s2b)"
    using t1 k t2 k2 b1 by (simp add: NvM_ReadRedundantBlock_def)
  then show ?thesis using buf2 len by simp
qed

theorem redundant_recovery_witness:
  "medium_ok ex_medium \<and> no_faults ex_medium \<and>
   fst ex_redundant_written = E_OK \<and>
   backup_written ex_medium ex_redundant_block ex_payload \<and>
   same_frame (snd (snd ex_redundant_written)) ex_redundant_corrupted \<and>
   slot_intact (snd (snd ex_redundant_written)) ex_redundant_corrupted 1024 \<and>
   \<not> fst (NvM_TryReadBlock ex_redundant_corrupted 0 (replicate 256 0) 256 NVM_CRC16) \<and>
   fst (NvM_ReadRedundantBlock ex_redundant_corrupted (fst (snd ex_redundant_written))
          (replicate 256 0)) = E_OK \<and>
   state (fst (snd (NvM_ReadRedundantBlock ex_redundant_corrupted (fst (snd ex_redundant_written))
          (replicate 256 0)))) = NVM_BLOCKSTATE_RECOVERED \<and>
   take 256 (fst (snd (snd (NvM_ReadRedundantBlock ex_redundant_corrupted
          (fst (snd ex_redundant_written)) (replicate 256 0))))) = ex_payload"
proof -
  note fw = ex_fresh_written
  note cp = ex_corrupted_primary[OF fw(3), folded ex_redundant_corrupted_def]
  have w: "NvM_WriteRedundantBlock ex_medium ex_redundant_block ex_payload
             = (E_OK, fst (snd ex_redundant_written), snd (snd ex_redundant_written))"
    using fw(1) by (metis ex_redundant_written_def prod.collapse)
  have len: "unat (block_size ex_redundant_block) \<le> length ex_payload"
    by (simp add: ex_block_fields ex_payload_def)
  have fits: "unat (block_size ex_redundant_block) + 2 \<le> EEPROM_BLOCK_SLOT_SIZE"
    by (simp add: ex_block_fields EEPROM_BLOCK_SLOT_SIZE_def)
  have ver: "version_control_offset ex_redundant_block = 0 \<or> page_size (g_config ex_medium) \<noteq> 1"
    by (simp add: ex_block_fields)
  have intact: "slot_intact (snd (snd ex_redundant_written)) ex_redundant_corrupted
                  (redundant_eeprom_offset ex_redundant_block)"
    using cp(2) by (simp add: ex_block_fields)
  have pf: "\<not> fst (NvM_TryReadBlock ex_redundant_corrupted (eeprom_offset ex_redundant_block)
                   (replicate 256 0) (block_size ex_redundant_block) (crc_type ex_redundant_block))"
    using cp(3) by (simp add: ex_block_fields)
  note r = redundant_recovery[OF ex_medium_ok ex_medium_no_faults len fits ver w fw(2) cp(1) intact pf]
  have "take 256 ex_payload = ex_payload" by (simp add: ex_payload_def)
  then show ?thesis
    using r ex_medium_ok ex_medium_no_faults fw(1,2) cp(1,2,3) by (simp add: ex_block_fields)
qed

text \<open>
  The claim as stated fails when the backup write fails: on a medium whose second erase block
  has reached its endurance limit the write returns \<^verbatim>\<open>E_OK\<close> with only the primary
  copy stored; corrupting the primary slot then leaves nothing to recover, and the read
  returns \<^verbatim>\<open>E_NOT_OK\<close> with state \<^verbatim>\<open>NVM_BLOCKSTATE_INVALID\<close>.
\<close>

theorem redundant_recovery_counterexample:
  "medium_ok ex_medium_worn \<and> no_faults ex_medium_worn \<and>
   fst ex_worn_written = E_OK \<and>
   same_frame (snd (snd ex_worn_written)) ex_worn_corrupted \<and>
   slot_intact (snd (snd ex_worn_written)) ex_worn_corrupted 1024 \<and>
   \<not> fst (NvM_TryReadBlock ex_worn_corrupted 0 (replicate 256 0) 256 NVM_CRC16) \<and>
   fst (NvM_ReadRedundantBlock ex_worn_corrupted (fst (snd ex_worn_written))
          (replicate 256 0)) = E_NOT_OK \<and>
   state (fst (snd (NvM_ReadRedundantBlock ex_worn_corrupted (fst (snd ex_worn_written))
          (replicate 256 0)))) = NVM_BLOCKSTATE_INVALID"
proof -
  note fw = ex_worn_written_facts
  note cp = ex_corrupted_primary[OF fw(3), folded ex_worn_corrupted_def]
  let ?b1 = "fst (snd ex_worn_written)"
  have b1: "eeprom_offset ?b1 = 0" "redundant_eeprom_offset ?b1 = 1024"
    "block_size ?b1 = 256" "crc_type ?b1 = NVM_CRC16"
    using redundant_written_block[of ex_medium_worn ex_redundant_block ex_payload]
    by (auto simp: ex_worn_written_def ex_block_fields)
  have f2: "same_frame ex_medium ex_worn_corrupted" using fw(3) cp(1) by (rule same_frame_trans)
  note g2 = ex_frame_fields[OF f2]
  obtain k buf1 s2a where t1: "NvM_TryReadBlock ex_worn_corrupted 0 (replicate 256 0) 256 NVM_CRC16
                                 = (k, buf1, s2a)"
    by (metis prod_cases3)
  have k: "\<not> k" using cp(3)[of "replicate 256 0"] t1 by simp
  note tf = try_read_frame[OF g2(2) t1]
  have f2a: "same_frame ex_medium s2a" using f2 tf(1) by (rule same_frame_trans)
  note g2a = ex_frame_fields[OF f2a]
  have erased: "virtual_storage (g_config s2a) ! i = 0xFF" if "1024 \<le> i" "i < 4096" for i
    using tf(2) cp(4)[of i] fw(4)[of i] that by simp
  have d: "take 256 (drop 1024 (virtual_storage (g_config s2a))) = replicate 256 0xFF"
    using g2a(7) erased by (intro take_drop_replicate) simp_all
  have c: "take 2 (drop 1280 (virtual_storage (g_config s2a))) = replicate 2 0xFF"
    using g2a(7) erased by (intro take_drop_replicate) simp_all
  have v1: "validate_address s2a 1024 (ucast (256::u16))"
    and v2: "validate_address s2a (1024 + ucast (256::u16)) 2"
    by (rule ex_validate[OF f2a]; simp)+
  have m: "bytes_u16 (take 2 (drop (unat ((1024::u32) + ucast (256::u16))) (virtual_storage (g_config s2a))))
              \<noteq> Crc16_Calculate (take (unat (256::u16)) (drop (unat (1024::u32)) (virtual_storage (g_config s2a))))
                    (ucast (256::u16))"
  proof -
    have u: "(ucast (256::u16) :: u32) = 256" "unat ((1024::u32) + 256) = 1280"
      "unat (256::u16) = 256" "unat (1024::u32) = 1024"
      by simp_all
    have c': "take 2 (drop 1280 (virtual_storage (g_config s2a))) = [0xFF, 0xFF]"
      unfolding c by (simp add: numeral_2_eq_2)
    have ne: "bytes_u16 [0xFF, 0xFF] \<noteq> 0x5B2F" by (simp add: bytes_u16_def)
    show ?thesis unfolding u c' d crc_erased_page by (rule ne)
  qed
  obtain k2 buf2 s2b where t2: "NvM_TryReadBlock s2a 1024 buf1 256 NVM_CRC16 = (k2, buf2, s2b)"
    by (metis prod_cases3)
  have k2: "\<not> k2"
    using try_read_mismatch(1)[OF g2a(2,1) v1 v2 _ m, where crc=NVM_CRC16 and buf=buf1] t2
    by simp
  have "NvM_ReadRedundantBlock ex_worn_corrupted ?b1 (replicate 256 0)
          = (E_NOT_OK, ?b1\<lparr>state := NVM_BLOCKSTATE_INVALID\<rparr>, rom_fallback ?b1 buf2, s2b)"
    using t1 k t2 k2 b1 by (simp add: NvM_ReadRedundantBlock_def)
  then show ?thesis
    using g2 fw(1) cp(1,2,3) ex_frame_fields(1,2)[OF ex_worn_frame] by simp
qed

end
